theory Spec2Isabelle
  imports Main
begin

section \<open>Data model of \<^verbatim>\<open>src/lib/trmnl-api.ts\<close>\<close>

text \<open>
  Timestamps are the epoch milliseconds that \<^verbatim>\<open>Date.now()\<close> returns, retry counts and
  refresh rates are counts: all of them are natural numbers here. A value that TypeScript
  types as \<^verbatim>\<open>T | null\<close> is a \<open>T option\<close>.
\<close>

datatype Environment = development | production

text \<open>The interface \<^verbatim>\<open>Device\<close>; its open index signature (further unknown keys) is left out.\<close>

record Device =
  dev_id :: string
  dev_name :: string
  api_key :: string
  friendly_id :: "string option"

text \<open>
  What the key \<^verbatim>\<open>devices\<close> can hold. The source types it \<^verbatim>\<open>Device[]\<close>, but
  \<^verbatim>\<open>fetchDevices\<close> stores the body of \<^verbatim>\<open>/devices.json\<close> as it is parsed, and that is any
  JSON value: \<^verbatim>\<open>null\<close>, an array (its elements taken as device records), or another value.
  Of a value that is neither \<^verbatim>\<open>null\<close> nor an array the source reads two things only,
  which are what \<open>DevicesOther\<close> carries: whether \<^verbatim>\<open>.length > 0\<close> holds, and \<^verbatim>\<open>[0]\<close>
  (\<open>None\<close> for \<^verbatim>\<open>undefined\<close>, \<open>Some None\<close> for \<^verbatim>\<open>null\<close>).
\<close>

datatype DevicesValue =
    DevicesNull
  | DevicesArray "Device list"
  | DevicesOther bool "Device option option"

record CurrentImage =
  url :: string
  originalUrl :: string
  filename :: string
  timestamp :: nat

record TrmnlState =
  environment :: Environment
  devices :: DevicesValue
  selectedDevice :: "Device option"
  currentImage :: "CurrentImage option"
  lastFetch :: "nat option"
  nextFetch :: "nat option"
  refreshRate :: nat
  retryCount :: nat
  retryAfter :: "nat option"

text \<open>
  \<^verbatim>\<open>Partial<TrmnlState>\<close>: every key may be missing (\<open>None\<close>, the \<^verbatim>\<open>undefined\<close> of
  the source); a key that is present carries a value of the field's type, which for the
  nullable fields may itself be \<^verbatim>\<open>null\<close> (\<open>Some None\<close>).
\<close>

record Updates =
  upd_environment :: "Environment option"
  upd_devices :: "DevicesValue option"
  upd_selectedDevice :: "Device option option"
  upd_currentImage :: "CurrentImage option option"
  upd_lastFetch :: "nat option option"
  upd_nextFetch :: "nat option option"
  upd_refreshRate :: "nat option"
  upd_retryCount :: "nat option"
  upd_retryAfter :: "nat option option"

definition no_updates :: Updates where
  "no_updates = \<lparr>upd_environment = None, upd_devices = None, upd_selectedDevice = None,
     upd_currentImage = None, upd_lastFetch = None, upd_nextFetch = None,
     upd_refreshRate = None, upd_retryCount = None, upd_retryAfter = None\<rparr>"

text \<open>
  \<^verbatim>\<open>localStorage\<close>, one entry for each key of \<^verbatim>\<open>STORAGE_KEYS\<close>, named as the key is.
  An entry is \<open>None\<close> while the key has never been written (or was removed). The source
  keeps the JSON text of the value; the model keeps the value, since
  \<^verbatim>\<open>JSON.parse (JSON.stringify v)\<close> gives \<open>v\<close> back for the values of these types, and
  \<^verbatim>\<open>setItem\<close> is taken to store what it is given.
\<close>

record Storage =
  trmnl_environment :: "Environment option"
  trmnl_devices :: "DevicesValue option"
  trmnl_selectedDevice :: "Device option option"
  trmnl_currentImage :: "CurrentImage option option"
  trmnl_lastFetch :: "nat option option"
  trmnl_nextFetch :: "nat option option"
  trmnl_refreshRate :: "nat option"
  trmnl_retryCount :: "nat option"
  trmnl_retryAfter :: "nat option option"
  trmnl_firstSetupComplete :: "(string \<rightharpoonup> bool) option"

definition DEFAULT_REFRESH_RATE :: nat where
  "DEFAULT_REFRESH_RATE = 30"

text \<open>\<^verbatim>\<open>getStorageItem\<close>: the entry when there is one, the default otherwise.\<close>

definition getStorageItem :: "'a option \<Rightarrow> 'a \<Rightarrow> 'a" where
  "getStorageItem item defaultValue = (case item of Some v \<Rightarrow> v | None \<Rightarrow> defaultValue)"

definition getState :: "Storage \<Rightarrow> TrmnlState" where
  "getState ls =
     \<lparr>environment = getStorageItem (trmnl_environment ls) production,
      devices = getStorageItem (trmnl_devices ls) (DevicesArray []),
      selectedDevice = getStorageItem (trmnl_selectedDevice ls) None,
      currentImage = getStorageItem (trmnl_currentImage ls) None,
      lastFetch = getStorageItem (trmnl_lastFetch ls) None,
      nextFetch = getStorageItem (trmnl_nextFetch ls) None,
      refreshRate = getStorageItem (trmnl_refreshRate ls) DEFAULT_REFRESH_RATE,
      retryCount = getStorageItem (trmnl_retryCount ls) 0,
      retryAfter = getStorageItem (trmnl_retryAfter ls) None\<rparr>"

text \<open>
  \<^verbatim>\<open>updateState\<close>: one guarded \<^verbatim>\<open>setStorageItem\<close> for each key, in the order of the
  source, then \<^verbatim>\<open>getState()\<close> on the store as written. The model returns the record and
  the store.
\<close>

definition updateState :: "Updates \<Rightarrow> Storage \<Rightarrow> TrmnlState \<times> Storage" where
  "updateState updates ls =
     (let ls1 = (case upd_environment updates of None \<Rightarrow> ls
                 | Some v \<Rightarrow> ls\<lparr>trmnl_environment := Some v\<rparr>);
          ls2 = (case upd_devices updates of None \<Rightarrow> ls1
                 | Some v \<Rightarrow> ls1\<lparr>trmnl_devices := Some v\<rparr>);
          ls3 = (case upd_selectedDevice updates of None \<Rightarrow> ls2
                 | Some v \<Rightarrow> ls2\<lparr>trmnl_selectedDevice := Some v\<rparr>);
          ls4 = (case upd_currentImage updates of None \<Rightarrow> ls3
                 | Some v \<Rightarrow> ls3\<lparr>trmnl_currentImage := Some v\<rparr>);
          ls5 = (case upd_lastFetch updates of None \<Rightarrow> ls4
                 | Some v \<Rightarrow> ls4\<lparr>trmnl_lastFetch := Some v\<rparr>);
          ls6 = (case upd_nextFetch updates of None \<Rightarrow> ls5
                 | Some v \<Rightarrow> ls5\<lparr>trmnl_nextFetch := Some v\<rparr>);
          ls7 = (case upd_refreshRate updates of None \<Rightarrow> ls6
                 | Some v \<Rightarrow> ls6\<lparr>trmnl_refreshRate := Some v\<rparr>);
          ls8 = (case upd_retryCount updates of None \<Rightarrow> ls7
                 | Some v \<Rightarrow> ls7\<lparr>trmnl_retryCount := Some v\<rparr>);
          ls9 = (case upd_retryAfter updates of None \<Rightarrow> ls8
                 | Some v \<Rightarrow> ls8\<lparr>trmnl_retryAfter := Some v\<rparr>)
      in (getState ls9, ls9))"

text \<open>\<^verbatim>\<open>clearState\<close> removes every key.\<close>

definition clearState :: "Storage \<Rightarrow> Storage" where
  "clearState ls =
     \<lparr>trmnl_environment = None, trmnl_devices = None, trmnl_selectedDevice = None,
      trmnl_currentImage = None, trmnl_lastFetch = None, trmnl_nextFetch = None,
      trmnl_refreshRate = None, trmnl_retryCount = None, trmnl_retryAfter = None,
      trmnl_firstSetupComplete = None\<rparr>"

section \<open>URLs and requests\<close>

definition HOSTS :: "Environment \<Rightarrow> string" where
  "HOSTS e = (case e of development \<Rightarrow> ''http://localhost:3000''
              | production \<Rightarrow> ''https://usetrmnl.com'')"

text \<open>\<^verbatim>\<open>HOSTS[environment] || HOSTS.production\<close>: an empty string is falsy.\<close>

definition getBaseUrl :: "Environment \<Rightarrow> string" where
  "getBaseUrl e = (if HOSTS e = [] then HOSTS production else HOSTS e)"

definition getDevicesUrl :: "Environment \<Rightarrow> string" where
  "getDevicesUrl e = getBaseUrl e @ ''/devices.json''"

definition getApiUrl :: "Environment \<Rightarrow> string" where
  "getApiUrl e = getBaseUrl e @ ''/api/current_screen''"

definition getLoginUrl :: "Environment \<Rightarrow> string" where
  "getLoginUrl e = getBaseUrl e @ ''/login''"

text \<open>The \<^verbatim>\<open>/api/display\<close> address, which the source builds in place three times.\<close>

definition displayUrl :: "Environment \<Rightarrow> string" where
  "displayUrl e = getBaseUrl e @ ''/api/display''"

text \<open>A call of \<^verbatim>\<open>fetch\<close>: the address, the headers, and whether cookies are sent.\<close>

record Request =
  req_url :: string
  req_headers :: "(string \<times> string) list"
  req_credentials :: bool

text \<open>
  What the awaited \<^verbatim>\<open>fetch\<close> gives: the promise rejects (a network-level failure), or
  it resolves to a response with a status and a body. The body is \<open>None\<close> when reading it
  throws (\<^verbatim>\<open>response.json()\<close> on a malformed body, a body that is not an object whose
  fields can be read, \<^verbatim>\<open>blob()\<close> or the conversion to a data URL failing), and the value
  read otherwise.
\<close>

datatype 'b FetchResult = Rejected | Resolved nat "'b option"

text \<open>\<^verbatim>\<open>response.ok\<close>.\<close>

definition ok :: "nat \<Rightarrow> bool" where
  "ok st = (200 \<le> st \<and> st \<le> 299)"

text \<open>The JSON body of the two screen endpoints, \<^verbatim>\<open>{image_url, filename?, refresh_rate?}\<close>.\<close>

record ScreenData =
  image_url :: string
  filename_opt :: "string option"
  refresh_rate :: "nat option"

text \<open>
  Everything a call of \<^verbatim>\<open>fetchImage\<close> or \<^verbatim>\<open>fetchNextScreen\<close> takes from outside: the
  reading of \<^verbatim>\<open>Date.now()\<close> at each place that calls it (the back-off check, the 429
  branch, \<^verbatim>\<open>currentTime\<close>, the \<^verbatim>\<open>catch\<close> block) and the results of the metadata request
  and of the image request. The image result is the data URL of the downloaded bytes.
\<close>

record FetchEnv =
  now_backoff :: nat
  metadata :: "ScreenData FetchResult"
  now_limited :: nat
  now_parsed :: nat
  download :: "string FetchResult"
  now_caught :: nat

text \<open>
  What a \<^verbatim>\<open>throw\<close> carries; \<open>TypeError\<close> is what reading a property of \<^verbatim>\<open>null\<close>
  throws.
\<close>

datatype Error = FetchRejected | HttpError nat | ImageError nat | BodyUnreadable | TypeError

text \<open>
  The result of running an operation: the value its promise resolves to (\<open>Inr\<close>) or
  the error it throws (\<open>Inl\<close>), the store it left, and the requests it issued, in order.
\<close>

record 'a Outcome =
  returned :: "Error + 'a"
  store :: Storage
  sent :: "Request list"

section \<open>First setup\<close>

text \<open>
  \<^verbatim>\<open>firstSetupMap[deviceId] === true\<close>: a key the object does not own reads as
  \<^verbatim>\<open>undefined\<close> or as an inherited property, neither of which is \<^verbatim>\<open>true\<close>.
\<close>

definition hasCompletedFirstSetup :: "string \<Rightarrow> Storage \<Rightarrow> bool" where
  "hasCompletedFirstSetup deviceId ls =
     (let firstSetupMap = getStorageItem (trmnl_firstSetupComplete ls) Map.empty
      in firstSetupMap deviceId = Some True)"

text \<open>
  \<^verbatim>\<open>firstSetupMap[deviceId] = true\<close> sets the key, with one exception: for the key
  \<^verbatim>\<open>__proto__\<close>, when the object has no own property of that name, the assignment goes to
  the setter of \<^verbatim>\<open>Object.prototype\<close>, which ignores a boolean, and the map is stored as it
  was.
\<close>

definition markFirstSetupComplete :: "string \<Rightarrow> Storage \<Rightarrow> Storage" where
  "markFirstSetupComplete deviceId ls =
     (let firstSetupMap = getStorageItem (trmnl_firstSetupComplete ls) Map.empty
      in if deviceId = ''__proto__'' \<and> firstSetupMap deviceId = None
         then ls\<lparr>trmnl_firstSetupComplete := Some firstSetupMap\<rparr>
         else ls\<lparr>trmnl_firstSetupComplete := Some (firstSetupMap(deviceId \<mapsto> True))\<rparr>)"

section \<open>Back-off and the cached image\<close>

text \<open>\<^verbatim>\<open>Math.min(1000 * Math.pow(2, newRetryCount), 300000)\<close>.\<close>

definition backoffMs :: "nat \<Rightarrow> nat" where
  "backoffMs newRetryCount = min (1000 * 2 ^ newRetryCount) 300000"

text \<open>\<^verbatim>\<open>retryAfter && Date.now() < retryAfter\<close>: \<^verbatim>\<open>null\<close> and \<open>0\<close> are falsy.\<close>

definition inBackoff :: "nat option \<Rightarrow> nat \<Rightarrow> bool" where
  "inBackoff retryAfter' now =
     (case retryAfter' of None \<Rightarrow> False | Some t \<Rightarrow> t \<noteq> 0 \<and> now < t)"

text \<open>\<^verbatim>\<open>currentImage?.url || null\<close>: no image, or an image with an empty URL, gives \<^verbatim>\<open>null\<close>.\<close>

definition cachedUrl :: "CurrentImage option \<Rightarrow> string option" where
  "cachedUrl currentImage' =
     (case currentImage' of None \<Rightarrow> None
      | Some c \<Rightarrow> if url c = [] then None else Some (url c))"

text \<open>\<^verbatim>\<open>!apiKey\<close> for \<^verbatim>\<open>apiKey = selectedDevice?.api_key\<close>: no device, or an empty key.\<close>

definition noApiKey :: "Device option \<Rightarrow> bool" where
  "noApiKey selectedDevice' =
     (case selectedDevice' of None \<Rightarrow> True | Some d \<Rightarrow> api_key d = [])"

text \<open>\<^verbatim>\<open>data.filename || "display.jpg"\<close> and \<^verbatim>\<open>data.refresh_rate || DEFAULT_REFRESH_RATE\<close>.\<close>

definition filenameOf :: "ScreenData \<Rightarrow> string" where
  "filenameOf data =
     (case filename_opt data of None \<Rightarrow> ''display.jpg''
      | Some f \<Rightarrow> if f = [] then ''display.jpg'' else f)"

definition refreshRateOf :: "ScreenData \<Rightarrow> nat" where
  "refreshRateOf data =
     (case refresh_rate data of None \<Rightarrow> DEFAULT_REFRESH_RATE
      | Some r \<Rightarrow> if r = 0 then DEFAULT_REFRESH_RATE else r)"

text \<open>The three partial updates that the fetch operations write.\<close>

definition resetRetry :: Updates where
  "resetRetry = no_updates\<lparr>upd_retryCount := Some 0, upd_retryAfter := Some None\<rparr>"

definition backoffUpdate :: "nat \<Rightarrow> nat \<Rightarrow> Updates" where
  "backoffUpdate newRetryCount retryAfterTime =
     no_updates\<lparr>upd_retryCount := Some newRetryCount,
                 upd_retryAfter := Some (Some retryAfterTime)\<rparr>"

definition storeImage :: "string \<Rightarrow> string \<Rightarrow> string \<Rightarrow> nat \<Rightarrow> nat \<Rightarrow> Updates" where
  "storeImage imageDataUrl imageUrl filename' currentTime refreshRate' =
     no_updates\<lparr>
       upd_currentImage := Some (Some \<lparr>url = imageDataUrl, originalUrl = imageUrl,
                                       filename = filename', timestamp = currentTime\<rparr>),
       upd_lastFetch := Some (Some currentTime),
       upd_nextFetch := Some (Some (currentTime + refreshRate' * 1000)),
       upd_refreshRate := Some refreshRate',
       upd_retryCount := Some 0,
       upd_retryAfter := Some None\<rparr>"

definition unchangedUpdate :: "nat \<Rightarrow> nat \<Rightarrow> Updates" where
  "unchangedUpdate currentTime refreshRate' =
     no_updates\<lparr>
       upd_refreshRate := Some refreshRate',
       upd_lastFetch := Some (Some currentTime),
       upd_nextFetch := Some (Some (currentTime + refreshRate' * 1000)),
       upd_retryCount := Some 0,
       upd_retryAfter := Some None\<rparr>"

section \<open>\<^verbatim>\<open>fetchDevices\<close>\<close>

definition devicesRequest :: "Environment \<Rightarrow> Request" where
  "devicesRequest e = \<lparr>req_url = getDevicesUrl e, req_headers = [], req_credentials = True\<rparr>"

text \<open>
  \<^verbatim>\<open>v.length > 0\<close> on a stored or fetched value: reading \<^verbatim>\<open>length\<close> of \<^verbatim>\<open>null\<close> throws.
\<close>

definition lengthPositive :: "DevicesValue \<Rightarrow> Error + bool" where
  "lengthPositive v =
     (case v of
        DevicesNull \<Rightarrow> Inl TypeError
      | DevicesArray ds \<Rightarrow> Inr (length ds > 0)
      | DevicesOther positive first \<Rightarrow> Inr positive)"

text \<open>
  \<^verbatim>\<open>v[0]\<close>, as the partial update \<^verbatim>\<open>{selectedDevice: v[0]}\<close> carries it: \<open>None\<close> is
  \<^verbatim>\<open>undefined\<close>, which \<^verbatim>\<open>updateState\<close> skips.
\<close>

definition firstOf :: "DevicesValue \<Rightarrow> Device option option" where
  "firstOf v =
     (case v of
        DevicesNull \<Rightarrow> None
      | DevicesArray ds \<Rightarrow> (case ds of [] \<Rightarrow> None | d # rest \<Rightarrow> Some (Some d))
      | DevicesOther positive first \<Rightarrow> first)"

text \<open>
  The \<^verbatim>\<open>try\<close> block; a \<^verbatim>\<open>throw\<close> inside it is the value \<open>Inl\<close>. The value returned
  is \<^verbatim>\<open>Device[] | null\<close>, with \<open>DevicesNull\<close> for \<^verbatim>\<open>null\<close>. The body of a 2xx answer is
  stored before \<^verbatim>\<open>devices.length\<close> is read, so a throw there leaves the store written.
\<close>

definition fetchDevices_try ::
  "Environment \<Rightarrow> DevicesValue FetchResult \<Rightarrow> DevicesValue \<Rightarrow> Storage \<Rightarrow>
     DevicesValue Outcome" where
  "fetchDevices_try e response storedDevices ls =
     (case response of
        Rejected \<Rightarrow> \<lparr>returned = Inl FetchRejected, store = ls, sent = [devicesRequest e]\<rparr>
      | Resolved st body \<Rightarrow>
          if st = 401 \<or> st = 403 then
            (case lengthPositive storedDevices of
               Inl err \<Rightarrow> \<lparr>returned = Inl err, store = ls, sent = [devicesRequest e]\<rparr>
             | Inr positive \<Rightarrow>
                 \<lparr>returned = Inr (if positive then storedDevices else DevicesNull),
                  store = ls, sent = [devicesRequest e]\<rparr>)
          else if \<not> ok st then
            (case lengthPositive storedDevices of
               Inl err \<Rightarrow> \<lparr>returned = Inl err, store = ls, sent = [devicesRequest e]\<rparr>
             | Inr positive \<Rightarrow>
                 if positive
                 then \<lparr>returned = Inr storedDevices, store = ls, sent = [devicesRequest e]\<rparr>
                 else \<lparr>returned = Inl (HttpError st), store = ls, sent = [devicesRequest e]\<rparr>)
          else
            (case body of
               None \<Rightarrow> \<lparr>returned = Inl BodyUnreadable, store = ls, sent = [devicesRequest e]\<rparr>
             | Some devices' \<Rightarrow>
                 (let ls1 = snd (updateState (no_updates\<lparr>upd_devices := Some devices'\<rparr>) ls);
                      state = getState ls1
                  in if selectedDevice state = None then
                       (case lengthPositive devices' of
                          Inl err \<Rightarrow>
                            \<lparr>returned = Inl err, store = ls1, sent = [devicesRequest e]\<rparr>
                        | Inr positive \<Rightarrow>
                            \<lparr>returned = Inr devices',
                             store =
                               (if positive
                                then snd (updateState
                                       (no_updates\<lparr>upd_selectedDevice := firstOf devices'\<rparr>)
                                       ls1)
                                else ls1),
                             sent = [devicesRequest e]\<rparr>)
                     else
                       \<lparr>returned = Inr devices', store = ls1, sent = [devicesRequest e]\<rparr>)))"

text \<open>
  \<^verbatim>\<open>fetchDevices\<close>. The \<^verbatim>\<open>catch\<close> block reads \<^verbatim>\<open>storedDevices.length\<close> again, so it
  throws in its turn when the stored value is \<^verbatim>\<open>null\<close>.
\<close>

definition fetchDevices ::
  "Environment \<Rightarrow> DevicesValue FetchResult \<Rightarrow> Storage \<Rightarrow> DevicesValue Outcome" where
  "fetchDevices e response ls =
     (let storedDevices = getStorageItem (trmnl_devices ls) (DevicesArray []);
          attempt = fetchDevices_try e response storedDevices ls
      in case returned attempt of
           Inr v \<Rightarrow> attempt
         | Inl err \<Rightarrow>
             (case lengthPositive storedDevices of
                Inl err' \<Rightarrow> attempt\<lparr>returned := Inl err'\<rparr>
              | Inr positive \<Rightarrow>
                  attempt\<lparr>returned :=
                    Inr (if positive then storedDevices else DevicesNull)\<rparr>))"

section \<open>\<^verbatim>\<open>fetchNextScreen\<close>\<close>

definition nextScreenRequest :: "Environment \<Rightarrow> string \<Rightarrow> Request" where
  "nextScreenRequest e apiKey =
     \<lparr>req_url = displayUrl e,
      req_headers = [(''Access-Token'', apiKey), (''Cache-Control'', ''no-cache'')],
      req_credentials = False\<rparr>"

definition imageRequest :: "string \<Rightarrow> Request" where
  "imageRequest imageUrl = \<lparr>req_url = imageUrl, req_headers = [], req_credentials = False\<rparr>"

definition fetchNextScreen_try ::
  "FetchEnv \<Rightarrow> Request \<Rightarrow> nat \<Rightarrow> Storage \<Rightarrow> string option Outcome" where
  "fetchNextScreen_try env request retryCount' ls =
     (case metadata env of
        Rejected \<Rightarrow> \<lparr>returned = Inl FetchRejected, store = ls, sent = [request]\<rparr>
      | Resolved st body \<Rightarrow>
          if st = 401 \<or> st = 403 then
            \<lparr>returned = Inr None, store = snd (updateState resetRetry ls), sent = [request]\<rparr>
          else if st = 429 then
            (let newRetryCount = retryCount' + 1;
                 retryAfterTime = now_limited env + backoffMs newRetryCount
             in \<lparr>returned = Inr None,
                 store = snd (updateState (backoffUpdate newRetryCount retryAfterTime) ls),
                 sent = [request]\<rparr>)
          else if \<not> ok st then
            \<lparr>returned = Inl (HttpError st), store = ls, sent = [request]\<rparr>
          else
            (case body of
               None \<Rightarrow> \<lparr>returned = Inl BodyUnreadable, store = ls, sent = [request]\<rparr>
             | Some data \<Rightarrow>
                 let imageUrl = image_url data;
                     currentTime = now_parsed env;
                     requests = [request, imageRequest imageUrl]
                 in (case download env of
                       Rejected \<Rightarrow>
                         \<lparr>returned = Inl FetchRejected, store = ls, sent = requests\<rparr>
                     | Resolved ist ibody \<Rightarrow>
                         if \<not> ok ist then
                           \<lparr>returned = Inl (ImageError ist), store = ls, sent = requests\<rparr>
                         else
                           (case ibody of
                              None \<Rightarrow>
                                \<lparr>returned = Inl BodyUnreadable, store = ls, sent = requests\<rparr>
                            | Some imageDataUrl \<Rightarrow>
                                \<lparr>returned = Inr (Some imageDataUrl),
                                 store = snd (updateState
                                   (storeImage imageDataUrl imageUrl (filenameOf data)
                                      currentTime (refreshRateOf data)) ls),
                                 sent = requests\<rparr>))))"

definition fetchNextScreen :: "FetchEnv \<Rightarrow> Storage \<Rightarrow> string option Outcome" where
  "fetchNextScreen env ls =
     (let state = getState ls in
      if inBackoff (retryAfter state) (now_backoff env) then
        \<lparr>returned = Inr None, store = ls, sent = []\<rparr>
      else if noApiKey (selectedDevice state) then
        \<lparr>returned = Inr None, store = ls, sent = []\<rparr>
      else
        (let apiKey = api_key (the (selectedDevice state));
             attempt = fetchNextScreen_try env (nextScreenRequest (environment state) apiKey)
                         (retryCount state) ls
         in case returned attempt of
              Inr v \<Rightarrow> attempt
            | Inl err \<Rightarrow>
                let newRetryCount = retryCount state + 1;
                    retryAfterTime = now_caught env + backoffMs newRetryCount
                in attempt\<lparr>returned := Inr None,
                     store := snd (updateState (backoffUpdate newRetryCount retryAfterTime)
                                     (store attempt))\<rparr>))"

section \<open>\<^verbatim>\<open>triggerSpecialFunction\<close>\<close>

definition specialRequest :: "Environment \<Rightarrow> string \<Rightarrow> Request" where
  "specialRequest e apiKey =
     \<lparr>req_url = displayUrl e,
      req_headers = [(''Access-Token'', apiKey), (''Special-Function'', ''true''),
                     (''Cache-Control'', ''no-cache'')],
      req_credentials = False\<rparr>"

definition triggerSpecialFunction_try ::
  "'b FetchResult \<Rightarrow> Request \<Rightarrow> Storage \<Rightarrow> bool Outcome" where
  "triggerSpecialFunction_try response request ls =
     (case response of
        Rejected \<Rightarrow> \<lparr>returned = Inl FetchRejected, store = ls, sent = [request]\<rparr>
      | Resolved st body \<Rightarrow>
          if st = 401 \<or> st = 403 then
            \<lparr>returned = Inr False, store = ls, sent = [request]\<rparr>
          else if \<not> ok st then
            \<lparr>returned = Inl (HttpError st), store = ls, sent = [request]\<rparr>
          else \<lparr>returned = Inr True, store = ls, sent = [request]\<rparr>)"

definition triggerSpecialFunction :: "'b FetchResult \<Rightarrow> Storage \<Rightarrow> bool Outcome" where
  "triggerSpecialFunction response ls =
     (let state = getState ls in
      if noApiKey (selectedDevice state) then
        \<lparr>returned = Inr False, store = ls, sent = []\<rparr>
      else
        (let apiKey = api_key (the (selectedDevice state));
             attempt = triggerSpecialFunction_try response
                         (specialRequest (environment state) apiKey) ls
         in case returned attempt of
              Inr v \<Rightarrow> attempt
            | Inl err \<Rightarrow> attempt\<lparr>returned := Inr False\<rparr>))"

section \<open>\<^verbatim>\<open>fetchImage\<close>\<close>

definition screenRequest :: "string \<Rightarrow> string \<Rightarrow> Request" where
  "screenRequest API_URL apiKey =
     \<lparr>req_url = API_URL,
      req_headers = [(''access-token'', apiKey), (''Cache-Control'', ''no-cache'')],
      req_credentials = False\<rparr>"

text \<open>
  The \<^verbatim>\<open>try\<close> block of \<^verbatim>\<open>fetchImage\<close>, with the locals it closes over as arguments.
\<close>

definition fetchImage_try ::
  "bool \<Rightarrow> FetchEnv \<Rightarrow> Request \<Rightarrow> bool \<Rightarrow> string \<Rightarrow> CurrentImage option \<Rightarrow> nat \<Rightarrow>
     Storage \<Rightarrow> string option Outcome" where
  "fetchImage_try forceRefresh env request isFirstSetup deviceId currentImage' retryCount' ls =
     (case metadata env of
        Rejected \<Rightarrow> \<lparr>returned = Inl FetchRejected, store = ls, sent = [request]\<rparr>
      | Resolved st body \<Rightarrow>
          if st = 401 \<or> st = 403 then
            \<lparr>returned = Inr None, store = snd (updateState resetRetry ls), sent = [request]\<rparr>
          else if st = 429 then
            (let newRetryCount = retryCount' + 1;
                 retryAfterTime = now_limited env + backoffMs newRetryCount
             in \<lparr>returned = Inr (cachedUrl currentImage'),
                 store = snd (updateState (backoffUpdate newRetryCount retryAfterTime) ls),
                 sent = [request]\<rparr>)
          else if \<not> ok st then
            \<lparr>returned = Inl (HttpError st), store = ls, sent = [request]\<rparr>
          else
            (case body of
               None \<Rightarrow> \<lparr>returned = Inl BodyUnreadable, store = ls, sent = [request]\<rparr>
             | Some data \<Rightarrow>
                 let imageUrl = image_url data;
                     currentTime = now_parsed env
                 in if \<not> forceRefresh \<and> currentImage' \<noteq> None \<and>
                       originalUrl (the currentImage') = imageUrl
                    then
                      \<lparr>returned = Inr (Some (url (the currentImage'))),
                       store = snd (updateState
                                 (unchangedUpdate currentTime (refreshRateOf data)) ls),
                       sent = [request]\<rparr>
                    else
                      (let requests = [request, imageRequest imageUrl]
                       in case download env of
                            Rejected \<Rightarrow>
                              \<lparr>returned = Inl FetchRejected, store = ls, sent = requests\<rparr>
                          | Resolved ist ibody \<Rightarrow>
                              if \<not> ok ist then
                                \<lparr>returned = Inl (ImageError ist), store = ls, sent = requests\<rparr>
                              else
                                (case ibody of
                                   None \<Rightarrow>
                                     \<lparr>returned = Inl BodyUnreadable, store = ls,
                                      sent = requests\<rparr>
                                 | Some imageDataUrl \<Rightarrow>
                                     let ls1 = snd (updateState
                                           (storeImage imageDataUrl imageUrl (filenameOf data)
                                              currentTime (refreshRateOf data)) ls);
                                         ls2 = (if isFirstSetup
                                                then markFirstSetupComplete deviceId ls1
                                                else ls1)
                                     in \<lparr>returned = Inr (Some imageDataUrl), store = ls2,
                                         sent = requests\<rparr>))))"

text \<open>\<^verbatim>\<open>selectedDevice?.id || "unknown"\<close>.\<close>

definition deviceIdOf :: "Device option \<Rightarrow> string" where
  "deviceIdOf selectedDevice' =
     (case selectedDevice' of None \<Rightarrow> ''unknown''
      | Some d \<Rightarrow> if dev_id d = [] then ''unknown'' else dev_id d)"

definition fetchImage :: "bool \<Rightarrow> FetchEnv \<Rightarrow> Storage \<Rightarrow> string option Outcome" where
  "fetchImage forceRefresh env ls =
     (let state = getState ls in
      if inBackoff (retryAfter state) (now_backoff env) \<and> \<not> forceRefresh then
        \<lparr>returned = Inr (cachedUrl (currentImage state)), store = ls, sent = []\<rparr>
      else if noApiKey (selectedDevice state) then
        \<lparr>returned = Inr None, store = ls, sent = []\<rparr>
      else
        (let apiKey = api_key (the (selectedDevice state));
             deviceId = deviceIdOf (selectedDevice state);
             isFirstSetup = (\<not> hasCompletedFirstSetup deviceId ls);
             API_URL = (if isFirstSetup then displayUrl (environment state)
                        else getApiUrl (environment state));
             attempt = fetchImage_try forceRefresh env (screenRequest API_URL apiKey)
                         isFirstSetup deviceId (currentImage state) (retryCount state) ls
         in case returned attempt of
              Inr v \<Rightarrow> attempt
            | Inl err \<Rightarrow>
                let newRetryCount = retryCount state + 1;
                    retryAfterTime = now_caught env + backoffMs newRetryCount
                in attempt\<lparr>returned := Inr (cachedUrl (currentImage state)),
                     store := snd (updateState (backoffUpdate newRetryCount retryAfterTime)
                                     (store attempt))\<rparr>))"

section \<open>Selection, environment, manual key\<close>

definition selectDevice :: "Device \<Rightarrow> Storage \<Rightarrow> Storage" where
  "selectDevice device ls =
     snd (updateState (no_updates\<lparr>upd_selectedDevice := Some (Some device),
            upd_retryCount := Some 0, upd_retryAfter := Some None\<rparr>) ls)"

definition setEnvironment :: "Environment \<Rightarrow> Storage \<Rightarrow> Storage" where
  "setEnvironment e ls = snd (updateState (no_updates\<lparr>upd_environment := Some e\<rparr>) ls)"

text \<open>
  \<^verbatim>\<open>saveManualApiKey\<close> of \<^verbatim>\<open>src/hooks/useTrmnl.ts\<close>, as far as it touches the store: the
  one call of \<^verbatim>\<open>updateState\<close> outside \<^verbatim>\<open>trmnl-api.ts\<close>, followed by a forced fetch.
\<close>

definition manualDevice :: "string \<Rightarrow> Device" where
  "manualDevice apiKey =
     \<lparr>dev_id = ''manual'', dev_name = ''Manual Device'', api_key = apiKey,
      friendly_id = None\<rparr>"

definition saveManualApiKey :: "string \<Rightarrow> FetchEnv \<Rightarrow> Storage \<Rightarrow> string option Outcome" where
  "saveManualApiKey apiKey env ls =
     fetchImage True env
       (snd (updateState
          (no_updates\<lparr>upd_devices := Some (DevicesArray [manualDevice apiKey]),
             upd_selectedDevice := Some (Some (manualDevice apiKey)),
             upd_retryCount := Some 0, upd_retryAfter := Some None\<rparr>) ls))"

section \<open>The operations that write the store\<close>

datatype Op =
    FetchImage bool FetchEnv
  | FetchNextScreen FetchEnv
  | FetchDevices Environment "DevicesValue FetchResult"
  | TriggerSpecialFunction "unit FetchResult"
  | SelectDevice Device
  | SetEnvironment Environment
  | SaveManualApiKey string FetchEnv
  | ClearState

fun step :: "Storage \<Rightarrow> Op \<Rightarrow> Storage" where
  "step ls (FetchImage forceRefresh env) = store (fetchImage forceRefresh env ls)"
| "step ls (FetchNextScreen env) = store (fetchNextScreen env ls)"
| "step ls (FetchDevices e response) = store (fetchDevices e response ls)"
| "step ls (TriggerSpecialFunction response) = store (triggerSpecialFunction response ls)"
| "step ls (SelectDevice device) = selectDevice device ls"
| "step ls (SetEnvironment e) = setEnvironment e ls"
| "step ls (SaveManualApiKey apiKey env) = store (saveManualApiKey apiKey env ls)"
| "step ls ClearState = clearState ls"

text \<open>The store of a first load: no key has been written.\<close>

definition emptyStorage :: Storage where
  "emptyStorage =
     \<lparr>trmnl_environment = None, trmnl_devices = None, trmnl_selectedDevice = None,
      trmnl_currentImage = None, trmnl_lastFetch = None, trmnl_nextFetch = None,
      trmnl_refreshRate = None, trmnl_retryCount = None, trmnl_retryAfter = None,
      trmnl_firstSetupComplete = None\<rparr>"

section \<open>\<^verbatim>\<open>formatTimeRemaining\<close>\<close>

definition digitChar :: "nat \<Rightarrow> char" where
  "digitChar d = ''0123456789'' ! (d mod 10)"

text \<open>\<^verbatim>\<open>n.toString()\<close> for a non-negative integer: its decimal digits.\<close>

fun toString :: "nat \<Rightarrow> string" where
  "toString n = (if n < 10 then [digitChar n] else toString (n div 10) @ [digitChar n])"

declare toString.simps [simp del]

text \<open>\<^verbatim>\<open>s.padStart(targetLength, c)\<close> for a pad string of one character.\<close>

definition padStart :: "nat \<Rightarrow> char \<Rightarrow> string \<Rightarrow> string" where
  "padStart targetLength c s = replicate (targetLength - length s) c @ s"

definition pad :: "nat \<Rightarrow> string" where
  "pad n = padStart 2 (CHR ''0'') (toString n)"

text \<open>
  \<^verbatim>\<open>formatTimeRemaining\<close>; the second argument is the reading of \<^verbatim>\<open>Date.now()\<close>.
  \<^verbatim>\<open>!nextFetch\<close> holds for \<^verbatim>\<open>null\<close> and for \<open>0\<close>. The difference is taken in the integers,
  as the source takes it before \<^verbatim>\<open>Math.max(0, _)\<close>.
\<close>

definition formatTimeRemaining :: "nat option \<Rightarrow> nat \<Rightarrow> string" where
  "formatTimeRemaining nextFetch' now =
     (if nextFetch' = None \<or> nextFetch' = Some 0 then ''Unknown''
      else
        (let remaining = max 0 (int (the nextFetch') - int now);
             totalSeconds = nat (remaining div 1000);
             hours = totalSeconds div 3600;
             minutes = (totalSeconds mod 3600) div 60;
             seconds = totalSeconds mod 60
         in if hours > 0
            then pad hours @ '':'' @ pad minutes @ '':'' @ pad seconds
            else pad minutes @ '':'' @ pad seconds))"

text \<open>
  Reading a string of decimal digits back as a number; used to say what \<^verbatim>\<open>toString\<close> and
  \<^verbatim>\<open>pad\<close> produce.
\<close>

fun indexOf :: "'a list \<Rightarrow> 'a \<Rightarrow> nat" where
  "indexOf [] x = 0"
| "indexOf (y # ys) x = (if x = y then 0 else Suc (indexOf ys x))"

definition digitValue :: "char \<Rightarrow> nat" where
  "digitValue c = indexOf ''0123456789'' c"

definition isDigit :: "char \<Rightarrow> bool" where
  "isDigit c = (c \<in> set ''0123456789'')"

definition decimalValue :: "string \<Rightarrow> nat" where
  "decimalValue s = foldl (\<lambda>a c. 10 * a + digitValue c) 0 s"

section \<open>Kinds of outcome of a fetch\<close>

text \<open>
  The predicates below name, on what the network answers, the cases that the specification
  speaks of. They are read off the answers only; what the operations do in each case is
  proved from the definitions above.
\<close>

text \<open>The metadata request is answered with HTTP 429.\<close>

definition rateLimited :: "FetchEnv \<Rightarrow> bool" where
  "rateLimited env = (case metadata env of Rejected \<Rightarrow> False | Resolved st body \<Rightarrow> st = 429)"

text \<open>The metadata request is answered with HTTP 401 or 403.\<close>

definition unauthorized :: "FetchEnv \<Rightarrow> bool" where
  "unauthorized env =
     (case metadata env of Rejected \<Rightarrow> False | Resolved st body \<Rightarrow> st = 401 \<or> st = 403)"

text \<open>
  The metadata step fails with a thrown error: the request is rejected, or the status is
  outside 2xx and none of 401, 403, 429, or the body of a 2xx answer cannot be read.
\<close>

definition metadataThrows :: "FetchEnv \<Rightarrow> bool" where
  "metadataThrows env =
     (case metadata env of
        Rejected \<Rightarrow> True
      | Resolved st body \<Rightarrow> st \<noteq> 401 \<and> st \<noteq> 403 \<and> st \<noteq> 429 \<and> (\<not> ok st \<or> body = None))"

text \<open>The body of a 2xx metadata answer, when there is one.\<close>

definition screenData :: "FetchEnv \<Rightarrow> ScreenData option" where
  "screenData env =
     (case metadata env of
        Rejected \<Rightarrow> None
      | Resolved st body \<Rightarrow> if ok st then body else None)"

text \<open>The image step fails: rejected, a status outside 2xx, or bytes that cannot be read.\<close>

definition downloadThrows :: "FetchEnv \<Rightarrow> bool" where
  "downloadThrows env =
     (case download env of
        Rejected \<Rightarrow> True
      | Resolved ist ibody \<Rightarrow> \<not> ok ist \<or> ibody = None)"

text \<open>
  The metadata answer is 2xx and names the URL that the cached image came from, on a call
  that is not forced.
\<close>

definition imageUnchanged :: "bool \<Rightarrow> FetchEnv \<Rightarrow> Storage \<Rightarrow> bool" where
  "imageUnchanged forceRefresh env ls =
     (\<not> forceRefresh \<and>
      (case screenData env of
         None \<Rightarrow> False
       | Some data \<Rightarrow>
           (case currentImage (getState ls) of
              None \<Rightarrow> False
            | Some c \<Rightarrow> originalUrl c = image_url data)))"

text \<open>
  \<^verbatim>\<open>fetchImage\<close> gets as far as the metadata request: no back-off window holds it (or the
  call is forced), and the selected device has an API key.
\<close>

definition imageAttempted :: "bool \<Rightarrow> FetchEnv \<Rightarrow> Storage \<Rightarrow> bool" where
  "imageAttempted forceRefresh env ls =
     (\<not> (inBackoff (retryAfter (getState ls)) (now_backoff env) \<and> \<not> forceRefresh) \<and>
      \<not> noApiKey (selectedDevice (getState ls)))"

definition nextAttempted :: "FetchEnv \<Rightarrow> Storage \<Rightarrow> bool" where
  "nextAttempted env ls =
     (\<not> inBackoff (retryAfter (getState ls)) (now_backoff env) \<and>
      \<not> noApiKey (selectedDevice (getState ls)))"

text \<open>A thrown error reaches the \<^verbatim>\<open>catch\<close> block of \<^verbatim>\<open>fetchImage\<close>, of \<^verbatim>\<open>fetchNextScreen\<close>.\<close>

definition imageThrows :: "bool \<Rightarrow> FetchEnv \<Rightarrow> Storage \<Rightarrow> bool" where
  "imageThrows forceRefresh env ls =
     (metadataThrows env \<or>
      (screenData env \<noteq> None \<and> \<not> imageUnchanged forceRefresh env ls \<and> downloadThrows env))"

definition nextThrows :: "FetchEnv \<Rightarrow> bool" where
  "nextThrows env = (metadataThrows env \<or> (screenData env \<noteq> None \<and> downloadThrows env))"

text \<open>
  The call ends in success: a 2xx metadata answer, and then the unchanged-image return or a
  completed download.
\<close>

definition imageSucceeds :: "bool \<Rightarrow> FetchEnv \<Rightarrow> Storage \<Rightarrow> bool" where
  "imageSucceeds forceRefresh env ls =
     (screenData env \<noteq> None \<and> (imageUnchanged forceRefresh env ls \<or> \<not> downloadThrows env))"

definition nextSucceeds :: "FetchEnv \<Rightarrow> bool" where
  "nextSucceeds env = (screenData env \<noteq> None \<and> \<not> downloadThrows env)"

text \<open>
  The metadata request of \<^verbatim>\<open>fetchImage\<close> on a store: the locals \<^verbatim>\<open>apiKey\<close>,
  \<^verbatim>\<open>deviceId\<close>, \<^verbatim>\<open>isFirstSetup\<close> and \<^verbatim>\<open>API_URL\<close> of the source, put together.
\<close>

definition isFirstSetupOf :: "Storage \<Rightarrow> bool" where
  "isFirstSetupOf ls =
     (\<not> hasCompletedFirstSetup (deviceIdOf (selectedDevice (getState ls))) ls)"

definition metadataRequestOf :: "Storage \<Rightarrow> Request" where
  "metadataRequestOf ls =
     screenRequest
       (if isFirstSetupOf ls then displayUrl (environment (getState ls))
        else getApiUrl (environment (getState ls)))
       (api_key (the (selectedDevice (getState ls))))"

text \<open>The request of \<^verbatim>\<open>fetchNextScreen\<close> on a store.\<close>

definition nextRequestOf :: "Storage \<Rightarrow> Request" where
  "nextRequestOf ls =
     nextScreenRequest (environment (getState ls))
       (api_key (the (selectedDevice (getState ls))))"

text \<open>The store after the \<^verbatim>\<open>catch\<close> block, or the 429 branch, at clock reading \<open>t\<close>.\<close>

definition backedOff :: "nat \<Rightarrow> Storage \<Rightarrow> Storage" where
  "backedOff t ls =
     snd (updateState
       (backoffUpdate (retryCount (getState ls) + 1)
          (t + backoffMs (retryCount (getState ls) + 1))) ls)"

text \<open>The request of \<^verbatim>\<open>triggerSpecialFunction\<close> fails: rejected, or a status outside 2xx.\<close>

definition specialFails :: "'b FetchResult \<Rightarrow> bool" where
  "specialFails response =
     (case response of Rejected \<Rightarrow> True | Resolved st body \<Rightarrow> \<not> ok st)"

text \<open>
  The request of \<^verbatim>\<open>fetchDevices\<close> fails: rejected, a status outside 2xx, or a body that
  cannot be read.
\<close>

definition devicesFail :: "DevicesValue FetchResult \<Rightarrow> bool" where
  "devicesFail response =
     (case response of Rejected \<Rightarrow> True | Resolved st body \<Rightarrow> \<not> ok st \<or> body = None)"

text \<open>\<^verbatim>\<open>storedDevices\<close> as \<^verbatim>\<open>fetchDevices\<close> reads it at its start.\<close>

definition storedDevicesOf :: "Storage \<Rightarrow> DevicesValue" where
  "storedDevicesOf ls = getStorageItem (trmnl_devices ls) (DevicesArray [])"

text \<open>
  The device may be marked: the assignment in \<^verbatim>\<open>markFirstSetupComplete\<close> sets its key.
\<close>

definition markable :: "string \<Rightarrow> Storage \<Rightarrow> bool" where
  "markable deviceId ls =
     (\<not> (deviceId = ''__proto__'' \<and>
         getStorageItem (trmnl_firstSetupComplete ls) Map.empty deviceId = None))"

section \<open>The refresh schedule\<close>

text \<open>
  The invariant of the schedule, on a state record: \<^verbatim>\<open>nextFetch\<close>, when set, is
  \<^verbatim>\<open>lastFetch + refreshRate * 1000\<close>.
\<close>

definition schedulerInv :: "TrmnlState \<Rightarrow> bool" where
  "schedulerInv s =
     (case nextFetch s of
        None \<Rightarrow> True
      | Some nf \<Rightarrow>
          (case lastFetch s of None \<Rightarrow> False | Some lf \<Rightarrow> nf = lf + refreshRate s * 1000))"

text \<open>The three schedule fields are the same in two states.\<close>

definition sameSchedule :: "TrmnlState \<Rightarrow> TrmnlState \<Rightarrow> bool" where
  "sameSchedule s s' =
     (lastFetch s' = lastFetch s \<and> nextFetch s' = nextFetch s \<and> refreshRate s' = refreshRate s)"

text \<open>The three schedule fields as one write leaves them, at some time of fetching.\<close>

definition writtenTogether :: "TrmnlState \<Rightarrow> bool" where
  "writtenTogether s' =
     (case lastFetch s' of
        None \<Rightarrow> False
      | Some t \<Rightarrow> nextFetch s' = Some (t + refreshRate s' * 1000))"

section \<open>Concrete inputs\<close>

text \<open>
  A device, a cached image, stores and network answers on which the theorems below are
  run.
\<close>

definition exDevice :: Device where
  "exDevice = \<lparr>dev_id = ''d1'', dev_name = ''Desk'', api_key = ''key'', friendly_id = None\<rparr>"

definition exImage :: CurrentImage where
  "exImage = \<lparr>url = ''data:image/png;base64,AAAA'', originalUrl = ''https://x/a.png'',
     filename = ''a.png'', timestamp = 1000\<rparr>"

text \<open>
  A store with a selected device and a cached image, three failures behind it, and a
  back-off window that ends at time 5000.
\<close>

definition exStorage :: Storage where
  "exStorage =
     \<lparr>trmnl_environment = Some production, trmnl_devices = Some (DevicesArray [exDevice]),
      trmnl_selectedDevice = Some (Some exDevice), trmnl_currentImage = Some (Some exImage),
      trmnl_lastFetch = Some (Some 1000), trmnl_nextFetch = Some (Some 61000),
      trmnl_refreshRate = Some 60, trmnl_retryCount = Some 3,
      trmnl_retryAfter = Some (Some 5000), trmnl_firstSetupComplete = None\<rparr>"

text \<open>The metadata body \<^verbatim>\<open>{image_url: u, refresh_rate: 60}\<close>.\<close>

definition exData :: "string \<Rightarrow> ScreenData" where
  "exData u = \<lparr>image_url = u, filename_opt = None, refresh_rate = Some 60\<rparr>"

text \<open>A call at time \<open>t\<close>, every reading of the clock being \<open>t\<close>, with the two answers given.\<close>

definition exEnv :: "nat \<Rightarrow> ScreenData FetchResult \<Rightarrow> string FetchResult \<Rightarrow> FetchEnv" where
  "exEnv t m d = \<lparr>now_backoff = t, metadata = m, now_limited = t, now_parsed = t,
     download = d, now_caught = t\<rparr>"

text \<open>
  Calls at time 6000, after the window of \<open>exStorage\<close> has ended: rate limited, rejected
  by the network, unauthorized, answered with the URL of the cached image, and answered
  with a new URL whose image downloads.
\<close>

definition envLimited :: FetchEnv where
  "envLimited = exEnv 6000 (Resolved 429 None) Rejected"

definition envRejected :: FetchEnv where
  "envRejected = exEnv 6000 Rejected Rejected"

definition envUnauthorized :: FetchEnv where
  "envUnauthorized = exEnv 6000 (Resolved 401 None) Rejected"

definition envSame :: FetchEnv where
  "envSame = exEnv 6000 (Resolved 200 (Some (exData ''https://x/a.png''))) Rejected"

definition envNew :: FetchEnv where
  "envNew = exEnv 6000 (Resolved 200 (Some (exData ''https://x/b.png'')))
     (Resolved 200 (Some ''data:image/png;base64,BBBB''))"

text \<open>A call at time 4000, inside the window of \<open>exStorage\<close>.\<close>

definition envEarly :: FetchEnv where
  "envEarly = exEnv 4000 (Resolved 200 (Some (exData ''https://x/b.png'')))
     (Resolved 200 (Some ''data:image/png;base64,BBBB''))"

section \<open>The frame of \<^verbatim>\<open>updateState\<close>\<close>

lemma updateState_store_cases:
  "trmnl_environment (snd (updateState u ls)) =
     (case upd_environment u of None \<Rightarrow> trmnl_environment ls | Some v \<Rightarrow> Some v)"
  "trmnl_devices (snd (updateState u ls)) =
     (case upd_devices u of None \<Rightarrow> trmnl_devices ls | Some v \<Rightarrow> Some v)"
  "trmnl_selectedDevice (snd (updateState u ls)) =
     (case upd_selectedDevice u of None \<Rightarrow> trmnl_selectedDevice ls | Some v \<Rightarrow> Some v)"
  "trmnl_currentImage (snd (updateState u ls)) =
     (case upd_currentImage u of None \<Rightarrow> trmnl_currentImage ls | Some v \<Rightarrow> Some v)"
  "trmnl_lastFetch (snd (updateState u ls)) =
     (case upd_lastFetch u of None \<Rightarrow> trmnl_lastFetch ls | Some v \<Rightarrow> Some v)"
  "trmnl_nextFetch (snd (updateState u ls)) =
     (case upd_nextFetch u of None \<Rightarrow> trmnl_nextFetch ls | Some v \<Rightarrow> Some v)"
  "trmnl_refreshRate (snd (updateState u ls)) =
     (case upd_refreshRate u of None \<Rightarrow> trmnl_refreshRate ls | Some v \<Rightarrow> Some v)"
  "trmnl_retryCount (snd (updateState u ls)) =
     (case upd_retryCount u of None \<Rightarrow> trmnl_retryCount ls | Some v \<Rightarrow> Some v)"
  "trmnl_retryAfter (snd (updateState u ls)) =
     (case upd_retryAfter u of None \<Rightarrow> trmnl_retryAfter ls | Some v \<Rightarrow> Some v)"
  "trmnl_firstSetupComplete (snd (updateState u ls)) = trmnl_firstSetupComplete ls"
  by (simp_all add: updateState_def Let_def split: option.splits)

lemma updateState_returns_getState:
  "fst (updateState u ls) = getState (snd (updateState u ls))"
  by (simp add: updateState_def Let_def)

text \<open>
  C10. A key that the partial update does not carry keeps its stored entry; the first-setup
  map, which is no key of the update, always does. The record that \<^verbatim>\<open>updateState\<close> returns
  is \<^verbatim>\<open>getState()\<close> of the store after the writes. An update that carries the two retry
  keys only leaves \<^verbatim>\<open>currentImage\<close>, \<^verbatim>\<open>devices\<close> and \<^verbatim>\<open>selectedDevice\<close> as they were.
\<close>

theorem updateState_frame:
  "(upd_environment u = None \<longrightarrow>
      trmnl_environment (snd (updateState u ls)) = trmnl_environment ls) \<and>
   (upd_devices u = None \<longrightarrow>
      trmnl_devices (snd (updateState u ls)) = trmnl_devices ls) \<and>
   (upd_selectedDevice u = None \<longrightarrow>
      trmnl_selectedDevice (snd (updateState u ls)) = trmnl_selectedDevice ls) \<and>
   (upd_currentImage u = None \<longrightarrow>
      trmnl_currentImage (snd (updateState u ls)) = trmnl_currentImage ls) \<and>
   (upd_lastFetch u = None \<longrightarrow>
      trmnl_lastFetch (snd (updateState u ls)) = trmnl_lastFetch ls) \<and>
   (upd_nextFetch u = None \<longrightarrow>
      trmnl_nextFetch (snd (updateState u ls)) = trmnl_nextFetch ls) \<and>
   (upd_refreshRate u = None \<longrightarrow>
      trmnl_refreshRate (snd (updateState u ls)) = trmnl_refreshRate ls) \<and>
   (upd_retryCount u = None \<longrightarrow>
      trmnl_retryCount (snd (updateState u ls)) = trmnl_retryCount ls) \<and>
   (upd_retryAfter u = None \<longrightarrow>
      trmnl_retryAfter (snd (updateState u ls)) = trmnl_retryAfter ls) \<and>
   trmnl_firstSetupComplete (snd (updateState u ls)) = trmnl_firstSetupComplete ls \<and>
   fst (updateState u ls) = getState (snd (updateState u ls)) \<and>
   (let r = fst (updateState (no_updates\<lparr>upd_retryCount := Some n, upd_retryAfter := Some t\<rparr>) ls)
    in currentImage r = currentImage (getState ls) \<and>
       devices r = devices (getState ls) \<and>
       selectedDevice r = selectedDevice (getState ls) \<and>
       retryCount r = n \<and> retryAfter r = t)"
  by (simp add: updateState_store_cases updateState_returns_getState Let_def)
    (simp add: getState_def getStorageItem_def updateState_store_cases no_updates_def)

theorem updateState_frame_witness:
  "upd_environment (backoffUpdate 4 9000) = None \<and>
   upd_devices (backoffUpdate 4 9000) = None \<and>
   upd_selectedDevice (backoffUpdate 4 9000) = None \<and>
   upd_currentImage (backoffUpdate 4 9000) = None \<and>
   upd_lastFetch (backoffUpdate 4 9000) = None \<and>
   upd_nextFetch (backoffUpdate 4 9000) = None \<and>
   upd_refreshRate (backoffUpdate 4 9000) = None \<and>
   upd_retryCount no_updates = None \<and>
   upd_retryAfter no_updates = None \<and>
   trmnl_environment (snd (updateState (backoffUpdate 4 9000) exStorage)) = Some production \<and>
   trmnl_devices (snd (updateState (backoffUpdate 4 9000) exStorage)) =
     Some (DevicesArray [exDevice]) \<and>
   trmnl_selectedDevice (snd (updateState (backoffUpdate 4 9000) exStorage)) = Some (Some exDevice) \<and>
   trmnl_currentImage (snd (updateState (backoffUpdate 4 9000) exStorage)) = Some (Some exImage) \<and>
   trmnl_lastFetch (snd (updateState (backoffUpdate 4 9000) exStorage)) = Some (Some 1000) \<and>
   trmnl_nextFetch (snd (updateState (backoffUpdate 4 9000) exStorage)) = Some (Some 61000) \<and>
   trmnl_refreshRate (snd (updateState (backoffUpdate 4 9000) exStorage)) = Some 60 \<and>
   trmnl_retryCount (snd (updateState no_updates exStorage)) = Some 3 \<and>
   trmnl_retryAfter (snd (updateState no_updates exStorage)) = Some (Some 5000) \<and>
   currentImage (fst (updateState (backoffUpdate 4 9000) exStorage)) = Some exImage \<and>
   retryCount (fst (updateState (backoffUpdate 4 9000) exStorage)) = 4 \<and>
   retryAfter (fst (updateState (backoffUpdate 4 9000) exStorage)) = Some 9000"
  using updateState_frame [where u = "backoffUpdate 4 9000" and ls = exStorage and n = 4 and t = "Some 9000"]
    updateState_frame [where u = no_updates and ls = exStorage and n = 0 and t = None]
  by (simp add: backoffUpdate_def no_updates_def exStorage_def getState_def getStorageItem_def
      updateState_def Let_def)

section \<open>Case rules and the state after an update\<close>

lemma not_ok_special: "\<not> ok 401" "\<not> ok 403" "\<not> ok 429"
  by (simp_all add: ok_def)

lemma metadata_cases [case_names Rejected Unauthorized Limited HttpError BadBody Data]:
  obtains "metadata env = Rejected"
  | st body where "metadata env = Resolved st body" "st = 401 \<or> st = 403"
  | body where "metadata env = Resolved 429 body"
  | st body where "metadata env = Resolved st body" "st \<noteq> 401" "st \<noteq> 403" "st \<noteq> 429" "\<not> ok st"
  | st where "metadata env = Resolved st None" "ok st"
  | st data where "metadata env = Resolved st (Some data)" "ok st"
proof (cases "metadata env")
  case Rejected
  then show ?thesis using that(1) by blast
next
  case (Resolved st body)
  show ?thesis
  proof (cases "ok st")
    case True
    then show ?thesis using Resolved that(5,6) by (cases body) auto
  next
    case False
    then show ?thesis using Resolved that(2,3,4) by blast
  qed
qed

lemma download_cases [case_names Rejected HttpError BadBody Data]:
  obtains "download env = Rejected"
  | ist ibody where "download env = Resolved ist ibody" "\<not> ok ist"
  | ist where "download env = Resolved ist None" "ok ist"
  | ist imageDataUrl where "download env = Resolved ist (Some imageDataUrl)" "ok ist"
proof (cases "download env")
  case Rejected
  then show ?thesis using that(1) by blast
next
  case (Resolved ist ibody)
  then show ?thesis using that(2,3,4) by (cases "ok ist"; cases ibody) auto
qed

lemma getState_updateState:
  "getState (snd (updateState u ls)) =
     \<lparr>environment = (case upd_environment u of None \<Rightarrow> environment (getState ls) | Some v \<Rightarrow> v),
      devices = (case upd_devices u of None \<Rightarrow> devices (getState ls) | Some v \<Rightarrow> v),
      selectedDevice =
        (case upd_selectedDevice u of None \<Rightarrow> selectedDevice (getState ls) | Some v \<Rightarrow> v),
      currentImage =
        (case upd_currentImage u of None \<Rightarrow> currentImage (getState ls) | Some v \<Rightarrow> v),
      lastFetch = (case upd_lastFetch u of None \<Rightarrow> lastFetch (getState ls) | Some v \<Rightarrow> v),
      nextFetch = (case upd_nextFetch u of None \<Rightarrow> nextFetch (getState ls) | Some v \<Rightarrow> v),
      refreshRate = (case upd_refreshRate u of None \<Rightarrow> refreshRate (getState ls) | Some v \<Rightarrow> v),
      retryCount = (case upd_retryCount u of None \<Rightarrow> retryCount (getState ls) | Some v \<Rightarrow> v),
      retryAfter = (case upd_retryAfter u of None \<Rightarrow> retryAfter (getState ls) | Some v \<Rightarrow> v)\<rparr>"
  by (simp add: getState_def [of "snd (updateState u ls)"] updateState_store_cases)
     (simp add: getState_def getStorageItem_def split: option.splits)

lemma getState_resetRetry:
  "getState (snd (updateState resetRetry ls)) = (getState ls)\<lparr>retryCount := 0, retryAfter := None\<rparr>"
  by (simp add: getState_updateState resetRetry_def no_updates_def)

lemma getState_backoffUpdate:
  "getState (snd (updateState (backoffUpdate n t) ls)) =
     (getState ls)\<lparr>retryCount := n, retryAfter := Some t\<rparr>"
  by (simp add: getState_updateState backoffUpdate_def no_updates_def)

lemma getState_unchangedUpdate:
  "getState (snd (updateState (unchangedUpdate t r) ls)) =
     (getState ls)\<lparr>lastFetch := Some t, nextFetch := Some (t + r * 1000), refreshRate := r,
        retryCount := 0, retryAfter := None\<rparr>"
  by (simp add: getState_updateState unchangedUpdate_def no_updates_def)

lemma getState_storeImage:
  "getState (snd (updateState (storeImage u ou fn t r) ls)) =
     (getState ls)\<lparr>currentImage := Some \<lparr>url = u, originalUrl = ou, filename = fn, timestamp = t\<rparr>,
        lastFetch := Some t, nextFetch := Some (t + r * 1000), refreshRate := r,
        retryCount := 0, retryAfter := None\<rparr>"
  by (simp add: getState_updateState storeImage_def no_updates_def)

lemma getState_markFirstSetupComplete:
  "getState (markFirstSetupComplete d ls) = getState ls"
  by (simp add: getState_def markFirstSetupComplete_def Let_def)

section \<open>The \<^verbatim>\<open>try\<close> block of \<^verbatim>\<open>fetchImage\<close>, case by case\<close>

lemma fetchImage_try_Rejected:
  "metadata env = Rejected \<Longrightarrow>
   fetchImage_try f env rq fs d ci n ls = \<lparr>returned = Inl FetchRejected, store = ls, sent = [rq]\<rparr>"
  by (simp add: fetchImage_try_def)

lemma fetchImage_try_Unauthorized:
  "metadata env = Resolved st body \<Longrightarrow> st = 401 \<or> st = 403 \<Longrightarrow>
   fetchImage_try f env rq fs d ci n ls =
     \<lparr>returned = Inr None, store = snd (updateState resetRetry ls), sent = [rq]\<rparr>"
  by (simp add: fetchImage_try_def)

lemma fetchImage_try_Limited:
  "metadata env = Resolved 429 body \<Longrightarrow>
   fetchImage_try f env rq fs d ci n ls =
     \<lparr>returned = Inr (cachedUrl ci),
      store = snd (updateState (backoffUpdate (n + 1) (now_limited env + backoffMs (n + 1))) ls),
      sent = [rq]\<rparr>"
  by (simp add: fetchImage_try_def)

lemma fetchImage_try_HttpError:
  "metadata env = Resolved st body \<Longrightarrow> st \<noteq> 401 \<Longrightarrow> st \<noteq> 403 \<Longrightarrow> st \<noteq> 429 \<Longrightarrow> \<not> ok st \<Longrightarrow>
   fetchImage_try f env rq fs d ci n ls = \<lparr>returned = Inl (HttpError st), store = ls, sent = [rq]\<rparr>"
  by (simp add: fetchImage_try_def)

lemma ok_not_special: "ok st \<Longrightarrow> st \<noteq> 401 \<and> st \<noteq> 403 \<and> st \<noteq> 429"
  by (auto simp add: ok_def)

lemma fetchImage_try_BadBody:
  "metadata env = Resolved st None \<Longrightarrow> ok st \<Longrightarrow>
   fetchImage_try f env rq fs d ci n ls = \<lparr>returned = Inl BodyUnreadable, store = ls, sent = [rq]\<rparr>"
  using ok_not_special [of st] by (simp add: fetchImage_try_def)

lemma fetchImage_try_Unchanged:
  "metadata env = Resolved st (Some data) \<Longrightarrow> ok st \<Longrightarrow> \<not> f \<Longrightarrow> ci = Some c \<Longrightarrow>
   originalUrl c = image_url data \<Longrightarrow>
   fetchImage_try f env rq fs d ci n ls =
     \<lparr>returned = Inr (Some (url c)),
      store = snd (updateState (unchangedUpdate (now_parsed env) (refreshRateOf data)) ls),
      sent = [rq]\<rparr>"
  using ok_not_special [of st] by (simp add: fetchImage_try_def)

lemma fetchImage_try_Download:
  "metadata env = Resolved st (Some data) \<Longrightarrow> ok st \<Longrightarrow>
   f \<or> ci = None \<or> originalUrl (the ci) \<noteq> image_url data \<Longrightarrow>
   fetchImage_try f env rq fs d ci n ls =
     (case download env of
        Rejected \<Rightarrow>
          \<lparr>returned = Inl FetchRejected, store = ls, sent = [rq, imageRequest (image_url data)]\<rparr>
      | Resolved ist ibody \<Rightarrow>
          if \<not> ok ist then
            \<lparr>returned = Inl (ImageError ist), store = ls,
             sent = [rq, imageRequest (image_url data)]\<rparr>
          else
            (case ibody of
               None \<Rightarrow>
                 \<lparr>returned = Inl BodyUnreadable, store = ls,
                  sent = [rq, imageRequest (image_url data)]\<rparr>
             | Some imageDataUrl \<Rightarrow>
                 \<lparr>returned = Inr (Some imageDataUrl),
                  store =
                    (if fs
                     then markFirstSetupComplete d
                            (snd (updateState
                               (storeImage imageDataUrl (image_url data) (filenameOf data)
                                  (now_parsed env) (refreshRateOf data)) ls))
                     else snd (updateState
                            (storeImage imageDataUrl (image_url data) (filenameOf data)
                               (now_parsed env) (refreshRateOf data)) ls)),
                  sent = [rq, imageRequest (image_url data)]\<rparr>))"
  using ok_not_special [of st]
  by (auto simp add: fetchImage_try_def Let_def split: FetchResult.split option.split)

lemma fetchImage_try_throws:
  assumes "imageThrows f env ls"
  shows "\<exists>e. returned (fetchImage_try f env rq fs d (currentImage (getState ls)) n ls) = Inl e"
    and "store (fetchImage_try f env rq fs d (currentImage (getState ls)) n ls) = ls"
proof -
  let ?t = "fetchImage_try f env rq fs d (currentImage (getState ls)) n ls"
  have "(\<exists>e. returned ?t = Inl e) \<and> store ?t = ls"
  proof (cases env rule: metadata_cases)
    case Rejected
    then show ?thesis by (simp add: fetchImage_try_Rejected)
  next
    case (Unauthorized st body)
    then have False using assms not_ok_special
      by (auto simp add: imageThrows_def metadataThrows_def screenData_def)
    then show ?thesis ..
  next
    case (Limited body)
    then have False using assms not_ok_special
      by (auto simp add: imageThrows_def metadataThrows_def screenData_def)
    then show ?thesis ..
  next
    case (HttpError st body)
    then show ?thesis by (simp add: fetchImage_try_HttpError)
  next
    case (BadBody st)
    then show ?thesis by (simp add: fetchImage_try_BadBody)
  next
    case (Data st data)
    then have meta: "\<not> metadataThrows env" "screenData env = Some data"
      using ok_not_special [of st] by (simp_all add: metadataThrows_def screenData_def)
    with assms have nu: "\<not> imageUnchanged f env ls" and dt: "downloadThrows env"
      by (simp_all add: imageThrows_def)
    from nu meta have cond:
      "f \<or> currentImage (getState ls) = None \<or>
       originalUrl (the (currentImage (getState ls))) \<noteq> image_url data"
      by (auto simp add: imageUnchanged_def split: option.splits)
    show ?thesis
    proof (cases env rule: download_cases)
      case Rejected
      then show ?thesis by (simp add: fetchImage_try_Download [OF Data cond])
    next
      case (HttpError ist ibody)
      then show ?thesis by (simp add: fetchImage_try_Download [OF Data cond])
    next
      case (BadBody ist)
      then show ?thesis by (simp add: fetchImage_try_Download [OF Data cond])
    next
      case (Data ist imageDataUrl)
      then have False using dt by (simp add: downloadThrows_def)
      then show ?thesis ..
    qed
  qed
  then show "\<exists>e. returned ?t = Inl e" and "store ?t = ls" by simp_all
qed

section \<open>\<^verbatim>\<open>fetchImage\<close>, kind by kind\<close>

lemma fetchImage_attempted:
  "imageAttempted f env ls \<Longrightarrow>
   fetchImage f env ls =
     (let attempt = fetchImage_try f env (metadataRequestOf ls) (isFirstSetupOf ls)
                      (deviceIdOf (selectedDevice (getState ls))) (currentImage (getState ls))
                      (retryCount (getState ls)) ls
      in case returned attempt of
           Inr v \<Rightarrow> attempt
         | Inl err \<Rightarrow>
             attempt\<lparr>returned := Inr (cachedUrl (currentImage (getState ls))),
               store := snd (updateState
                          (backoffUpdate (retryCount (getState ls) + 1)
                             (now_caught env + backoffMs (retryCount (getState ls) + 1)))
                          (store attempt))\<rparr>)"
proof -
  assume "imageAttempted f env ls"
  then have 1: "\<not> (inBackoff (retryAfter (getState ls)) (now_backoff env) \<and> \<not> f)"
    and 2: "\<not> noApiKey (selectedDevice (getState ls))"
    by (simp_all add: imageAttempted_def)
  show ?thesis
    by (simp only: fetchImage_def Let_def if_not_P [OF 1] if_not_P [OF 2] metadataRequestOf_def
        isFirstSetupOf_def)
qed

lemma fetchImage_not_attempted:
  assumes "\<not> imageAttempted f env ls"
  shows "store (fetchImage f env ls) = ls"
    and "sent (fetchImage f env ls) = []"
    and "returned (fetchImage f env ls) = Inr None \<or>
         returned (fetchImage f env ls) = Inr (cachedUrl (currentImage (getState ls)))"
  using assms by (auto simp add: imageAttempted_def fetchImage_def Let_def)

lemma fetchImage_throws:
  assumes "imageAttempted f env ls" "imageThrows f env ls"
  shows "returned (fetchImage f env ls) = Inr (cachedUrl (currentImage (getState ls)))"
    and "store (fetchImage f env ls) = backedOff (now_caught env) ls"
proof -
  let ?t = "fetchImage_try f env (metadataRequestOf ls) (isFirstSetupOf ls)
              (deviceIdOf (selectedDevice (getState ls))) (currentImage (getState ls))
              (retryCount (getState ls)) ls"
  from fetchImage_try_throws [OF assms(2)] obtain e
    where "returned ?t = Inl e" and "store ?t = ls" by blast
  then show "returned (fetchImage f env ls) = Inr (cachedUrl (currentImage (getState ls)))"
    and "store (fetchImage f env ls) = backedOff (now_caught env) ls"
    by (simp_all add: fetchImage_attempted [OF assms(1)] Let_def backedOff_def)
qed

lemma fetchImage_limited:
  assumes "imageAttempted f env ls" "rateLimited env"
  shows "fetchImage f env ls =
           \<lparr>returned = Inr (cachedUrl (currentImage (getState ls))),
            store = backedOff (now_limited env) ls, sent = [metadataRequestOf ls]\<rparr>"
proof -
  from assms(2) obtain body where "metadata env = Resolved 429 body"
    by (auto simp add: rateLimited_def split: FetchResult.splits)
  then show ?thesis
    by (simp add: fetchImage_attempted [OF assms(1)] fetchImage_try_Limited backedOff_def)
qed

lemma fetchImage_unauthorized:
  assumes "imageAttempted f env ls" "unauthorized env"
  shows "fetchImage f env ls =
           \<lparr>returned = Inr None, store = snd (updateState resetRetry ls),
            sent = [metadataRequestOf ls]\<rparr>"
proof -
  from assms(2) obtain st body where "metadata env = Resolved st body" "st = 401 \<or> st = 403"
    by (auto simp add: unauthorized_def split: FetchResult.splits)
  then show ?thesis
    by (simp add: fetchImage_attempted [OF assms(1)] fetchImage_try_Unauthorized)
qed

lemma screenData_Some:
  "screenData env = Some data \<longleftrightarrow> (\<exists>st. metadata env = Resolved st (Some data) \<and> ok st)"
  by (auto simp add: screenData_def split: FetchResult.splits)

lemma fetchImage_unchanged:
  assumes "imageAttempted f env ls" "imageUnchanged f env ls"
    and "screenData env = Some data" "currentImage (getState ls) = Some c"
  shows "fetchImage f env ls =
           \<lparr>returned = Inr (Some (url c)),
            store = snd (updateState (unchangedUpdate (now_parsed env) (refreshRateOf data)) ls),
            sent = [metadataRequestOf ls]\<rparr>"
proof -
  from assms(3) obtain st where "metadata env = Resolved st (Some data)" "ok st"
    by (auto simp add: screenData_Some)
  moreover from assms(2,3,4) have "\<not> f" "originalUrl c = image_url data"
    by (simp_all add: imageUnchanged_def)
  ultimately have
    "fetchImage_try f env (metadataRequestOf ls) (isFirstSetupOf ls)
       (deviceIdOf (selectedDevice (getState ls))) (currentImage (getState ls))
       (retryCount (getState ls)) ls =
     \<lparr>returned = Inr (Some (url c)),
      store = snd (updateState (unchangedUpdate (now_parsed env) (refreshRateOf data)) ls),
      sent = [metadataRequestOf ls]\<rparr>"
    using assms(4) by (intro fetchImage_try_Unchanged)
  then show ?thesis
    by (simp add: fetchImage_attempted [OF assms(1)])
qed

lemma fetchImage_downloaded:
  assumes "imageAttempted f env ls" "\<not> imageUnchanged f env ls"
    and "screenData env = Some data" "download env = Resolved ist (Some imageDataUrl)" "ok ist"
  shows "fetchImage f env ls =
           \<lparr>returned = Inr (Some imageDataUrl),
            store =
              (if isFirstSetupOf ls
               then markFirstSetupComplete (deviceIdOf (selectedDevice (getState ls)))
                      (snd (updateState
                         (storeImage imageDataUrl (image_url data) (filenameOf data)
                            (now_parsed env) (refreshRateOf data)) ls))
               else snd (updateState
                      (storeImage imageDataUrl (image_url data) (filenameOf data)
                         (now_parsed env) (refreshRateOf data)) ls)),
            sent = [metadataRequestOf ls, imageRequest (image_url data)]\<rparr>"
proof -
  from assms(3) obtain st where m: "metadata env = Resolved st (Some data)" "ok st"
    by (auto simp add: screenData_Some)
  from assms(2,3) have cond:
    "f \<or> currentImage (getState ls) = None \<or>
     originalUrl (the (currentImage (getState ls))) \<noteq> image_url data"
    by (auto simp add: imageUnchanged_def split: option.splits)
  show ?thesis using assms(4,5)
    by (simp add: fetchImage_attempted [OF assms(1)] fetchImage_try_Download [OF m cond])
qed

text \<open>Every call falls under one of the kinds.\<close>

lemma fetchImage_kinds:
  "\<not> imageAttempted f env ls \<or> unauthorized env \<or> rateLimited env \<or> imageThrows f env ls \<or>
   imageUnchanged f env ls \<or>
   (\<not> imageUnchanged f env ls \<and>
    (\<exists>data ist imageDataUrl. screenData env = Some data \<and>
       download env = Resolved ist (Some imageDataUrl) \<and> ok ist))"
proof (cases env rule: metadata_cases)
  case (Data st data)
  then have sd: "screenData env = Some data" by (simp add: screenData_def)
  show ?thesis
  proof (cases env rule: download_cases)
    case (Data ist imageDataUrl)
    then show ?thesis using sd by blast
  qed (simp_all add: imageThrows_def downloadThrows_def sd)
next
  case (BadBody st)
  then show ?thesis using ok_not_special [of st]
    by (simp add: imageThrows_def metadataThrows_def)
qed (simp_all add: unauthorized_def rateLimited_def imageThrows_def metadataThrows_def)

section \<open>\<^verbatim>\<open>fetchNextScreen\<close>, kind by kind\<close>

lemma fetchNextScreen_try_Rejected:
  "metadata env = Rejected \<Longrightarrow>
   fetchNextScreen_try env rq n ls = \<lparr>returned = Inl FetchRejected, store = ls, sent = [rq]\<rparr>"
  by (simp add: fetchNextScreen_try_def)

lemma fetchNextScreen_try_Unauthorized:
  "metadata env = Resolved st body \<Longrightarrow> st = 401 \<or> st = 403 \<Longrightarrow>
   fetchNextScreen_try env rq n ls =
     \<lparr>returned = Inr None, store = snd (updateState resetRetry ls), sent = [rq]\<rparr>"
  by (simp add: fetchNextScreen_try_def)

lemma fetchNextScreen_try_Limited:
  "metadata env = Resolved 429 body \<Longrightarrow>
   fetchNextScreen_try env rq n ls =
     \<lparr>returned = Inr None,
      store = snd (updateState (backoffUpdate (n + 1) (now_limited env + backoffMs (n + 1))) ls),
      sent = [rq]\<rparr>"
  by (simp add: fetchNextScreen_try_def)

lemma fetchNextScreen_try_HttpError:
  "metadata env = Resolved st body \<Longrightarrow> st \<noteq> 401 \<Longrightarrow> st \<noteq> 403 \<Longrightarrow> st \<noteq> 429 \<Longrightarrow> \<not> ok st \<Longrightarrow>
   fetchNextScreen_try env rq n ls = \<lparr>returned = Inl (HttpError st), store = ls, sent = [rq]\<rparr>"
  by (simp add: fetchNextScreen_try_def)

lemma fetchNextScreen_try_BadBody:
  "metadata env = Resolved st None \<Longrightarrow> ok st \<Longrightarrow>
   fetchNextScreen_try env rq n ls = \<lparr>returned = Inl BodyUnreadable, store = ls, sent = [rq]\<rparr>"
  using ok_not_special [of st] by (simp add: fetchNextScreen_try_def)

lemma fetchNextScreen_try_Download:
  "metadata env = Resolved st (Some data) \<Longrightarrow> ok st \<Longrightarrow>
   fetchNextScreen_try env rq n ls =
     (case download env of
        Rejected \<Rightarrow>
          \<lparr>returned = Inl FetchRejected, store = ls, sent = [rq, imageRequest (image_url data)]\<rparr>
      | Resolved ist ibody \<Rightarrow>
          if \<not> ok ist then
            \<lparr>returned = Inl (ImageError ist), store = ls,
             sent = [rq, imageRequest (image_url data)]\<rparr>
          else
            (case ibody of
               None \<Rightarrow>
                 \<lparr>returned = Inl BodyUnreadable, store = ls,
                  sent = [rq, imageRequest (image_url data)]\<rparr>
             | Some imageDataUrl \<Rightarrow>
                 \<lparr>returned = Inr (Some imageDataUrl),
                  store = snd (updateState
                            (storeImage imageDataUrl (image_url data) (filenameOf data)
                               (now_parsed env) (refreshRateOf data)) ls),
                  sent = [rq, imageRequest (image_url data)]\<rparr>))"
  using ok_not_special [of st]
  by (auto simp add: fetchNextScreen_try_def Let_def split: FetchResult.split option.split)

lemma fetchNextScreen_try_throws:
  assumes "nextThrows env"
  shows "\<exists>e. returned (fetchNextScreen_try env rq n ls) = Inl e"
    and "store (fetchNextScreen_try env rq n ls) = ls"
proof -
  let ?t = "fetchNextScreen_try env rq n ls"
  have "(\<exists>e. returned ?t = Inl e) \<and> store ?t = ls"
  proof (cases env rule: metadata_cases)
    case Rejected
    then show ?thesis by (simp add: fetchNextScreen_try_Rejected)
  next
    case (Unauthorized st body)
    then have False using assms not_ok_special
      by (auto simp add: nextThrows_def metadataThrows_def screenData_def)
    then show ?thesis ..
  next
    case (Limited body)
    then have False using assms not_ok_special
      by (auto simp add: nextThrows_def metadataThrows_def screenData_def)
    then show ?thesis ..
  next
    case (HttpError st body)
    then show ?thesis by (simp add: fetchNextScreen_try_HttpError)
  next
    case (BadBody st)
    then show ?thesis by (simp add: fetchNextScreen_try_BadBody)
  next
    case (Data st data)
    then have "\<not> metadataThrows env"
      using ok_not_special [of st] by (simp add: metadataThrows_def)
    with assms have dt: "downloadThrows env"
      by (simp add: nextThrows_def)
    show ?thesis
    proof (cases env rule: download_cases)
      case Rejected
      then show ?thesis by (simp add: fetchNextScreen_try_Download [OF Data])
    next
      case (HttpError ist ibody)
      then show ?thesis by (simp add: fetchNextScreen_try_Download [OF Data])
    next
      case (BadBody ist)
      then show ?thesis by (simp add: fetchNextScreen_try_Download [OF Data])
    next
      case (Data ist imageDataUrl)
      then have False using dt by (simp add: downloadThrows_def)
      then show ?thesis ..
    qed
  qed
  then show "\<exists>e. returned ?t = Inl e" and "store ?t = ls" by simp_all
qed

lemma fetchNextScreen_attempted:
  "nextAttempted env ls \<Longrightarrow>
   fetchNextScreen env ls =
     (let attempt = fetchNextScreen_try env (nextRequestOf ls) (retryCount (getState ls)) ls
      in case returned attempt of
           Inr v \<Rightarrow> attempt
         | Inl err \<Rightarrow>
             attempt\<lparr>returned := Inr None,
               store := snd (updateState
                          (backoffUpdate (retryCount (getState ls) + 1)
                             (now_caught env + backoffMs (retryCount (getState ls) + 1)))
                          (store attempt))\<rparr>)"
proof -
  assume "nextAttempted env ls"
  then have 1: "\<not> inBackoff (retryAfter (getState ls)) (now_backoff env)"
    and 2: "\<not> noApiKey (selectedDevice (getState ls))"
    by (simp_all add: nextAttempted_def)
  show ?thesis
    by (simp only: fetchNextScreen_def Let_def if_not_P [OF 1] if_not_P [OF 2] nextRequestOf_def)
qed

lemma fetchNextScreen_not_attempted:
  "\<not> nextAttempted env ls \<Longrightarrow>
   fetchNextScreen env ls = \<lparr>returned = Inr None, store = ls, sent = []\<rparr>"
  by (auto simp add: nextAttempted_def fetchNextScreen_def Let_def)

lemma fetchNextScreen_throws:
  assumes "nextAttempted env ls" "nextThrows env"
  shows "returned (fetchNextScreen env ls) = Inr None"
    and "store (fetchNextScreen env ls) = backedOff (now_caught env) ls"
proof -
  let ?t = "fetchNextScreen_try env (nextRequestOf ls) (retryCount (getState ls)) ls"
  from fetchNextScreen_try_throws [OF assms(2)] obtain e
    where "returned ?t = Inl e" and "store ?t = ls" by blast
  then show "returned (fetchNextScreen env ls) = Inr None"
    and "store (fetchNextScreen env ls) = backedOff (now_caught env) ls"
    by (simp_all add: fetchNextScreen_attempted [OF assms(1)] Let_def backedOff_def)
qed

lemma fetchNextScreen_limited:
  assumes "nextAttempted env ls" "rateLimited env"
  shows "fetchNextScreen env ls =
           \<lparr>returned = Inr None, store = backedOff (now_limited env) ls,
            sent = [nextRequestOf ls]\<rparr>"
proof -
  from assms(2) obtain body where "metadata env = Resolved 429 body"
    by (auto simp add: rateLimited_def split: FetchResult.splits)
  then show ?thesis
    by (simp add: fetchNextScreen_attempted [OF assms(1)] fetchNextScreen_try_Limited
        backedOff_def)
qed

lemma fetchNextScreen_unauthorized:
  assumes "nextAttempted env ls" "unauthorized env"
  shows "fetchNextScreen env ls =
           \<lparr>returned = Inr None, store = snd (updateState resetRetry ls),
            sent = [nextRequestOf ls]\<rparr>"
proof -
  from assms(2) obtain st body where "metadata env = Resolved st body" "st = 401 \<or> st = 403"
    by (auto simp add: unauthorized_def split: FetchResult.splits)
  then show ?thesis
    by (simp add: fetchNextScreen_attempted [OF assms(1)] fetchNextScreen_try_Unauthorized)
qed

lemma fetchNextScreen_downloaded:
  assumes "nextAttempted env ls"
    and "screenData env = Some data" "download env = Resolved ist (Some imageDataUrl)" "ok ist"
  shows "fetchNextScreen env ls =
           \<lparr>returned = Inr (Some imageDataUrl),
            store = snd (updateState
                      (storeImage imageDataUrl (image_url data) (filenameOf data)
                         (now_parsed env) (refreshRateOf data)) ls),
            sent = [nextRequestOf ls, imageRequest (image_url data)]\<rparr>"
proof -
  from assms(2) obtain st where m: "metadata env = Resolved st (Some data)" "ok st"
    by (auto simp add: screenData_Some)
  show ?thesis using assms(3,4)
    by (simp add: fetchNextScreen_attempted [OF assms(1)] fetchNextScreen_try_Download [OF m])
qed

lemma fetchNextScreen_kinds:
  "\<not> nextAttempted env ls \<or> unauthorized env \<or> rateLimited env \<or> nextThrows env \<or>
   (\<exists>data ist imageDataUrl. screenData env = Some data \<and>
      download env = Resolved ist (Some imageDataUrl) \<and> ok ist)"
proof (cases env rule: metadata_cases)
  case (Data st data)
  then have sd: "screenData env = Some data" by (simp add: screenData_def)
  show ?thesis
  proof (cases env rule: download_cases)
    case (Data ist imageDataUrl)
    then show ?thesis using sd by blast
  qed (simp_all add: nextThrows_def downloadThrows_def sd)
next
  case (BadBody st)
  then show ?thesis using ok_not_special [of st]
    by (simp add: nextThrows_def metadataThrows_def)
qed (simp_all add: unauthorized_def rateLimited_def nextThrows_def metadataThrows_def)

section \<open>Back-off\<close>

lemma getState_backedOff:
  "getState (backedOff t ls) =
     (getState ls)\<lparr>retryCount := retryCount (getState ls) + 1,
        retryAfter := Some (t + backoffMs (retryCount (getState ls) + 1))\<rparr>"
  by (simp add: backedOff_def getState_backoffUpdate)

lemma backoffMs_small: "n \<le> 8 \<Longrightarrow> backoffMs n = 1000 * 2 ^ n"
proof -
  assume "n \<le> 8"
  then have "(2::nat) ^ n \<le> 2 ^ 8" by (intro power_increasing) simp_all
  then show ?thesis by (simp add: backoffMs_def)
qed

lemma backoffMs_saturated: "9 \<le> n \<Longrightarrow> backoffMs n = 300000"
proof -
  assume "9 \<le> n"
  then have "(2::nat) ^ 9 \<le> 2 ^ n" by (intro power_increasing) simp_all
  then show ?thesis by (simp add: backoffMs_def)
qed

lemma fetchImage_retryCount_decreases:
  assumes "retryCount (getState (store (fetchImage f env ls))) < retryCount (getState ls)"
  shows "retryCount (getState (store (fetchImage f env ls))) = 0 \<and> imageAttempted f env ls \<and>
         (unauthorized env \<or> imageSucceeds f env ls)"
proof -
  consider "\<not> imageAttempted f env ls"
    | "imageAttempted f env ls" "unauthorized env"
    | "imageAttempted f env ls" "rateLimited env"
    | "imageAttempted f env ls" "imageThrows f env ls"
    | "imageAttempted f env ls" "imageUnchanged f env ls"
    | data ist imageDataUrl where "imageAttempted f env ls" "\<not> imageUnchanged f env ls"
        "screenData env = Some data" "download env = Resolved ist (Some imageDataUrl)" "ok ist"
    using fetchImage_kinds [of f env ls] by blast
  then show ?thesis
  proof cases
    case 1
    with assms show ?thesis by (simp add: fetchImage_not_attempted)
  next
    case 2
    then show ?thesis by (simp add: fetchImage_unauthorized getState_resetRetry)
  next
    case 3
    with assms show ?thesis by (simp add: fetchImage_limited getState_backedOff)
  next
    case 4
    with assms show ?thesis by (simp add: fetchImage_throws getState_backedOff)
  next
    case 5
    then obtain data c where "screenData env = Some data" "currentImage (getState ls) = Some c"
      by (auto simp add: imageUnchanged_def split: option.splits)
    with 5 show ?thesis
      by (simp add: fetchImage_unchanged getState_unchangedUpdate imageSucceeds_def)
  next
    case 6
    then show ?thesis
      by (simp add: fetchImage_downloaded getState_storeImage getState_markFirstSetupComplete
          imageSucceeds_def downloadThrows_def)
  qed
qed

lemma fetchNextScreen_retryCount_decreases:
  assumes "retryCount (getState (store (fetchNextScreen env ls))) < retryCount (getState ls)"
  shows "retryCount (getState (store (fetchNextScreen env ls))) = 0 \<and> nextAttempted env ls \<and>
         (unauthorized env \<or> nextSucceeds env)"
proof -
  consider "\<not> nextAttempted env ls"
    | "nextAttempted env ls" "unauthorized env"
    | "nextAttempted env ls" "rateLimited env"
    | "nextAttempted env ls" "nextThrows env"
    | data ist imageDataUrl where "nextAttempted env ls"
        "screenData env = Some data" "download env = Resolved ist (Some imageDataUrl)" "ok ist"
    using fetchNextScreen_kinds [of env ls] by blast
  then show ?thesis
  proof cases
    case 1
    with assms show ?thesis by (simp add: fetchNextScreen_not_attempted)
  next
    case 2
    then show ?thesis by (simp add: fetchNextScreen_unauthorized getState_resetRetry)
  next
    case 3
    with assms show ?thesis by (simp add: fetchNextScreen_limited getState_backedOff)
  next
    case 4
    with assms show ?thesis by (simp add: fetchNextScreen_throws getState_backedOff)
  next
    case 5
    then show ?thesis
      by (simp add: fetchNextScreen_downloaded getState_storeImage nextSucceeds_def
          downloadThrows_def)
  qed
qed

text \<open>
  C1. A failed attempt of \<^verbatim>\<open>fetchImage\<close> or \<^verbatim>\<open>fetchNextScreen\<close>, that is an HTTP 429
  answer or a thrown error, leaves \<^verbatim>\<open>retryCount\<close> one higher, at \<open>n\<close>, and \<^verbatim>\<open>retryAfter\<close>
  at the clock reading of that branch plus \<open>min (1000 * 2 ^ n) 300000\<close> milliseconds. The
  delay is \<open>1000 * 2 ^ n\<close> up to \<open>n = 8\<close> and 300000 from \<open>n = 9\<close> on. A call lowers
  \<^verbatim>\<open>retryCount\<close> only to 0, and only on an unauthorized answer or on success.
\<close>

theorem backoff_delay:
  "(imageAttempted f env ls \<and> rateLimited env \<longrightarrow>
      retryCount (getState (store (fetchImage f env ls))) = retryCount (getState ls) + 1 \<and>
      retryAfter (getState (store (fetchImage f env ls))) =
        Some (now_limited env + min (1000 * 2 ^ (retryCount (getState ls) + 1)) 300000)) \<and>
   (imageAttempted f env ls \<and> imageThrows f env ls \<longrightarrow>
      retryCount (getState (store (fetchImage f env ls))) = retryCount (getState ls) + 1 \<and>
      retryAfter (getState (store (fetchImage f env ls))) =
        Some (now_caught env + min (1000 * 2 ^ (retryCount (getState ls) + 1)) 300000)) \<and>
   (nextAttempted env ls \<and> rateLimited env \<longrightarrow>
      retryCount (getState (store (fetchNextScreen env ls))) = retryCount (getState ls) + 1 \<and>
      retryAfter (getState (store (fetchNextScreen env ls))) =
        Some (now_limited env + min (1000 * 2 ^ (retryCount (getState ls) + 1)) 300000)) \<and>
   (nextAttempted env ls \<and> nextThrows env \<longrightarrow>
      retryCount (getState (store (fetchNextScreen env ls))) = retryCount (getState ls) + 1 \<and>
      retryAfter (getState (store (fetchNextScreen env ls))) =
        Some (now_caught env + min (1000 * 2 ^ (retryCount (getState ls) + 1)) 300000)) \<and>
   (n \<le> 8 \<longrightarrow> backoffMs n = 1000 * 2 ^ n) \<and>
   (9 \<le> n \<longrightarrow> backoffMs n = 300000) \<and>
   (retryCount (getState (store (fetchImage f env ls))) < retryCount (getState ls) \<longrightarrow>
      retryCount (getState (store (fetchImage f env ls))) = 0 \<and>
      (unauthorized env \<or> imageSucceeds f env ls)) \<and>
   (retryCount (getState (store (fetchNextScreen env ls))) < retryCount (getState ls) \<longrightarrow>
      retryCount (getState (store (fetchNextScreen env ls))) = 0 \<and>
      (unauthorized env \<or> nextSucceeds env))"
proof (intro conjI impI)
  assume "imageAttempted f env ls \<and> rateLimited env"
  then show "retryCount (getState (store (fetchImage f env ls))) = retryCount (getState ls) + 1"
    and "retryAfter (getState (store (fetchImage f env ls))) =
           Some (now_limited env + min (1000 * 2 ^ (retryCount (getState ls) + 1)) 300000)"
    by (simp_all add: fetchImage_limited getState_backedOff backoffMs_def)
next
  assume "imageAttempted f env ls \<and> imageThrows f env ls"
  then show "retryCount (getState (store (fetchImage f env ls))) = retryCount (getState ls) + 1"
    and "retryAfter (getState (store (fetchImage f env ls))) =
           Some (now_caught env + min (1000 * 2 ^ (retryCount (getState ls) + 1)) 300000)"
    by (simp_all add: fetchImage_throws getState_backedOff backoffMs_def)
next
  assume "nextAttempted env ls \<and> rateLimited env"
  then show "retryCount (getState (store (fetchNextScreen env ls))) = retryCount (getState ls) + 1"
    and "retryAfter (getState (store (fetchNextScreen env ls))) =
           Some (now_limited env + min (1000 * 2 ^ (retryCount (getState ls) + 1)) 300000)"
    by (simp_all add: fetchNextScreen_limited getState_backedOff backoffMs_def)
next
  assume "nextAttempted env ls \<and> nextThrows env"
  then show "retryCount (getState (store (fetchNextScreen env ls))) = retryCount (getState ls) + 1"
    and "retryAfter (getState (store (fetchNextScreen env ls))) =
           Some (now_caught env + min (1000 * 2 ^ (retryCount (getState ls) + 1)) 300000)"
    by (simp_all add: fetchNextScreen_throws getState_backedOff backoffMs_def)
next
  assume "n \<le> 8"
  then show "backoffMs n = 1000 * 2 ^ n" by (rule backoffMs_small)
next
  assume "9 \<le> n"
  then show "backoffMs n = 300000" by (rule backoffMs_saturated)
next
  assume "retryCount (getState (store (fetchImage f env ls))) < retryCount (getState ls)"
  then show "retryCount (getState (store (fetchImage f env ls))) = 0"
    and "unauthorized env \<or> imageSucceeds f env ls"
    using fetchImage_retryCount_decreases [of f env ls] by simp_all
next
  assume "retryCount (getState (store (fetchNextScreen env ls))) < retryCount (getState ls)"
  then show "retryCount (getState (store (fetchNextScreen env ls))) = 0"
    and "unauthorized env \<or> nextSucceeds env"
    using fetchNextScreen_retryCount_decreases [of env ls] by simp_all
qed

section \<open>The concrete inputs, evaluated\<close>

lemmas env_defs =
  exData_def exEnv_def envLimited_def envRejected_def envUnauthorized_def envSame_def
  envNew_def envEarly_def

lemmas kind_defs =
  rateLimited_def unauthorized_def metadataThrows_def screenData_def downloadThrows_def
  imageUnchanged_def imageAttempted_def nextAttempted_def imageThrows_def nextThrows_def
  imageSucceeds_def nextSucceeds_def inBackoff_def noApiKey_def ok_def

lemma getState_exStorage:
  "getState exStorage =
     \<lparr>environment = production, devices = DevicesArray [exDevice],
      selectedDevice = Some exDevice,
      currentImage = Some exImage, lastFetch = Some 1000, nextFetch = Some 61000,
      refreshRate = 60, retryCount = 3, retryAfter = Some 5000\<rparr>"
  by (simp add: getState_def getStorageItem_def exStorage_def)

lemma getState_exStorage_retryCount:
  "getState (exStorage\<lparr>trmnl_retryCount := Some n\<rparr>) = (getState exStorage)\<lparr>retryCount := n\<rparr>"
  by (simp add: getState_def getStorageItem_def exStorage_def)

lemma exStorage_attempted:
  "imageAttempted f envLimited exStorage" "nextAttempted envLimited exStorage"
  "imageAttempted f envRejected exStorage" "nextAttempted envRejected exStorage"
  "imageAttempted f envUnauthorized exStorage" "nextAttempted envUnauthorized exStorage"
  "imageAttempted f envSame exStorage" "nextAttempted envSame exStorage"
  "imageAttempted f envNew exStorage" "nextAttempted envNew exStorage"
  "imageAttempted f envLimited (exStorage\<lparr>trmnl_retryCount := Some n\<rparr>)"
  by (simp_all add: imageAttempted_def nextAttempted_def inBackoff_def noApiKey_def
      getState_exStorage getState_exStorage_retryCount env_defs exDevice_def)

lemma ex_kinds:
  "rateLimited envLimited" "unauthorized envUnauthorized"
  "imageThrows f envRejected ls" "nextThrows envRejected"
  "screenData envSame = Some (exData ''https://x/a.png'')"
  "screenData envNew = Some (exData ''https://x/b.png'')"
  "imageUnchanged False envSame exStorage"
  "\<not> imageUnchanged f envNew exStorage"
  "\<not> downloadThrows envNew"
  by (simp_all add: kind_defs env_defs getState_exStorage exImage_def)

theorem backoff_delay_witness:
  "imageAttempted False envLimited exStorage \<and> rateLimited envLimited \<and>
   retryCount (getState (store (fetchImage False envLimited exStorage))) = 4 \<and>
   retryAfter (getState (store (fetchImage False envLimited exStorage))) = Some 22000 \<and>
   nextAttempted envLimited exStorage \<and>
   retryCount (getState (store (fetchNextScreen envLimited exStorage))) = 4 \<and>
   retryAfter (getState (store (fetchNextScreen envLimited exStorage))) = Some 22000 \<and>
   imageThrows False envRejected exStorage \<and> nextThrows envRejected \<and>
   retryAfter (getState (store (fetchImage False envRejected exStorage))) = Some 22000 \<and>
   retryAfter (getState (store (fetchNextScreen envRejected exStorage))) = Some 22000 \<and>
   retryCount (getState (store (fetchImage False envLimited
     (exStorage\<lparr>trmnl_retryCount := Some 8\<rparr>)))) = 9 \<and>
   retryAfter (getState (store (fetchImage False envLimited
     (exStorage\<lparr>trmnl_retryCount := Some 8\<rparr>)))) = Some 306000 \<and>
   backoffMs 1 = 2000 \<and> backoffMs 9 = 300000 \<and>
   retryCount (getState (store (fetchImage False envUnauthorized exStorage)))
     < retryCount (getState exStorage) \<and>
   retryCount (getState (store (fetchNextScreen envUnauthorized exStorage)))
     < retryCount (getState exStorage) \<and>
   unauthorized envUnauthorized"
proof -
  have t: "now_limited envLimited = 6000" "now_caught envRejected = 6000"
    by (simp_all add: env_defs)
  have u: "retryCount (getState (store (fetchImage False envUnauthorized exStorage))) = 0"
    "retryCount (getState (store (fetchNextScreen envUnauthorized exStorage))) = 0"
    by (simp_all add: fetchImage_unauthorized fetchNextScreen_unauthorized getState_resetRetry
        exStorage_attempted ex_kinds)
  show ?thesis
    using backoff_delay [where f = False and env = envLimited and ls = exStorage and n = 9]
      backoff_delay [where f = False and env = envRejected and ls = exStorage and n = 1]
      backoff_delay [where f = False and env = envLimited
        and ls = "exStorage\<lparr>trmnl_retryCount := Some 8\<rparr>" and n = 1]
      backoff_delay [where f = False and env = envUnauthorized and ls = exStorage and n = 1]
    by (simp add: exStorage_attempted ex_kinds t u getState_exStorage
        getState_exStorage_retryCount)
qed

section \<open>The unchanged-image return\<close>

lemma store_unchangedUpdate:
  "snd (updateState (unchangedUpdate t r) ls) =
     ls\<lparr>trmnl_lastFetch := Some (Some t), trmnl_nextFetch := Some (Some (t + r * 1000)),
        trmnl_refreshRate := Some r, trmnl_retryCount := Some 0, trmnl_retryAfter := Some None\<rparr>"
  by (simp add: updateState_def unchangedUpdate_def no_updates_def Let_def)

lemma imageRequest_not_metadataRequest: "imageRequest u \<noteq> metadataRequestOf ls"
  by (simp add: imageRequest_def metadataRequestOf_def screenRequest_def)

text \<open>
  C2. A call \<^verbatim>\<open>fetchImage(false)\<close> that reaches the metadata request, gets a 2xx answer
  with a readable body, and finds there the \<^verbatim>\<open>originalUrl\<close> of the cached image, sends
  the metadata request and nothing else, returns the cached \<^verbatim>\<open>url\<close>, and writes
  \<^verbatim>\<open>lastFetch\<close>, \<^verbatim>\<open>nextFetch\<close>, \<^verbatim>\<open>refreshRate\<close>, \<^verbatim>\<open>retryCount = 0\<close> and
  \<^verbatim>\<open>retryAfter = null\<close>, every other key staying as it was. A second call right after it,
  answered with the same \<^verbatim>\<open>image_url\<close>, again sends the metadata request only and
  returns the same \<^verbatim>\<open>url\<close>, and the cached image is still the same.
\<close>

theorem unchanged_image_no_download:
  assumes "imageAttempted False env ls"
    and "screenData env = Some data"
    and "currentImage (getState ls) = Some c"
    and "originalUrl c = image_url data"
    and "screenData env2 = Some data2"
    and "image_url data2 = image_url data"
  shows "sent (fetchImage False env ls) = [metadataRequestOf ls] \<and>
         imageRequest (image_url data) \<notin> set (sent (fetchImage False env ls)) \<and>
         returned (fetchImage False env ls) = Inr (Some (url c)) \<and>
         store (fetchImage False env ls) =
           ls\<lparr>trmnl_lastFetch := Some (Some (now_parsed env)),
              trmnl_nextFetch := Some (Some (now_parsed env + refreshRateOf data * 1000)),
              trmnl_refreshRate := Some (refreshRateOf data),
              trmnl_retryCount := Some 0, trmnl_retryAfter := Some None\<rparr> \<and>
         sent (fetchImage False env2 (store (fetchImage False env ls))) =
           [metadataRequestOf (store (fetchImage False env ls))] \<and>
         imageRequest (image_url data2) \<notin>
           set (sent (fetchImage False env2 (store (fetchImage False env ls)))) \<and>
         returned (fetchImage False env2 (store (fetchImage False env ls))) = Inr (Some (url c)) \<and>
         currentImage (getState (store (fetchImage False env2 (store (fetchImage False env ls)))))
           = Some c"
proof -
  let ?ls1 = "snd (updateState (unchangedUpdate (now_parsed env) (refreshRateOf data)) ls)"
  let ?ls2 = "snd (updateState (unchangedUpdate (now_parsed env2) (refreshRateOf data2)) ?ls1)"
  have u1: "imageUnchanged False env ls"
    using assms(2,3,4) by (simp add: imageUnchanged_def)
  have first: "fetchImage False env ls =
      \<lparr>returned = Inr (Some (url c)), store = ?ls1, sent = [metadataRequestOf ls]\<rparr>"
    using assms(1) u1 assms(2,3) by (rule fetchImage_unchanged)
  have c1: "currentImage (getState ?ls1) = Some c"
    using assms(3) by (simp add: getState_unchangedUpdate)
  have a2: "imageAttempted False env2 ?ls1"
    using assms(1) by (simp add: imageAttempted_def getState_unchangedUpdate inBackoff_def)
  have u2: "imageUnchanged False env2 ?ls1"
    using assms(4,5,6) c1 by (simp add: imageUnchanged_def)
  have second: "fetchImage False env2 ?ls1 =
      \<lparr>returned = Inr (Some (url c)), store = ?ls2, sent = [metadataRequestOf ?ls1]\<rparr>"
    using a2 u2 assms(5) c1 by (rule fetchImage_unchanged)
  have c2: "currentImage (getState ?ls2) = Some c"
    using c1 by (simp add: getState_unchangedUpdate)
  show ?thesis
    by (simp add: first second c2 imageRequest_not_metadataRequest)
      (simp add: store_unchangedUpdate)
qed

theorem unchanged_image_no_download_witness:
  "imageAttempted False envSame exStorage \<and>
   screenData envSame = Some (exData ''https://x/a.png'') \<and>
   currentImage (getState exStorage) = Some exImage \<and>
   originalUrl exImage = image_url (exData ''https://x/a.png'') \<and>
   sent (fetchImage False envSame exStorage) = [metadataRequestOf exStorage] \<and>
   returned (fetchImage False envSame exStorage) = Inr (Some ''data:image/png;base64,AAAA'') \<and>
   store (fetchImage False envSame exStorage) =
     exStorage\<lparr>trmnl_lastFetch := Some (Some 6000), trmnl_nextFetch := Some (Some 66000),
       trmnl_refreshRate := Some 60, trmnl_retryCount := Some 0,
       trmnl_retryAfter := Some None\<rparr> \<and>
   returned (fetchImage False envSame (store (fetchImage False envSame exStorage))) =
     Inr (Some ''data:image/png;base64,AAAA'') \<and>
   currentImage (getState (store (fetchImage False envSame
     (store (fetchImage False envSame exStorage))))) = Some exImage"
proof -
  have h: "originalUrl exImage = image_url (exData ''https://x/a.png'')"
    "url exImage = ''data:image/png;base64,AAAA''"
    "now_parsed envSame = 6000" "refreshRateOf (exData ''https://x/a.png'') = 60"
    by (simp_all add: exImage_def env_defs refreshRateOf_def)
  have g: "currentImage (getState exStorage) = Some exImage"
    by (simp add: getState_exStorage)
  show ?thesis
    using unchanged_image_no_download [OF exStorage_attempted(7) ex_kinds(5) g h(1) ex_kinds(5)]
    by (auto simp add: exStorage_attempted ex_kinds g h)
qed

section \<open>HTTP 429\<close>

lemma cachedUrl_Some: "url c \<noteq> [] \<Longrightarrow> cachedUrl (Some c) = Some (url c)"
  by (simp add: cachedUrl_def)

lemma cachedUrl_exImage:
  "cachedUrl (currentImage (getState exStorage)) = Some ''data:image/png;base64,AAAA''"
  by (simp add: getState_exStorage cachedUrl_def exImage_def)

text \<open>
  C3, as the claim states it, fails for \<^verbatim>\<open>fetchNextScreen\<close>: on HTTP 429, with an image
  in the cache, it returns \<^verbatim>\<open>null\<close> and not the cached URL.
\<close>

theorem rate_limited_next_screen_returns_null:
  "nextAttempted envLimited exStorage \<and> rateLimited envLimited \<and>
   cachedUrl (currentImage (getState exStorage)) = Some ''data:image/png;base64,AAAA'' \<and>
   returned (fetchNextScreen envLimited exStorage) = Inr None \<and>
   returned (fetchNextScreen envLimited exStorage) \<noteq>
     Inr (cachedUrl (currentImage (getState exStorage)))"
  by (simp add: exStorage_attempted ex_kinds cachedUrl_exImage fetchNextScreen_limited)

text \<open>
  C3, amended. On HTTP 429 \<^verbatim>\<open>fetchImage\<close> and \<^verbatim>\<open>fetchNextScreen\<close> store
  \<^verbatim>\<open>retryCount + 1\<close> and \<^verbatim>\<open>retryAfter = now + min(1000 * 2^newRetryCount, 300000)\<close> and
  leave the cached image in place. \<^verbatim>\<open>fetchImage\<close> returns \<^verbatim>\<open>currentImage?.url || null\<close>,
  which is the cached URL when an image with a non-empty URL is cached;
  \<^verbatim>\<open>fetchNextScreen\<close> returns \<^verbatim>\<open>null\<close>.
\<close>

theorem rate_limited_backoff:
  "(imageAttempted f env ls \<and> rateLimited env \<longrightarrow>
      retryCount (getState (store (fetchImage f env ls))) = retryCount (getState ls) + 1 \<and>
      retryAfter (getState (store (fetchImage f env ls))) =
        Some (now_limited env + min (1000 * 2 ^ (retryCount (getState ls) + 1)) 300000) \<and>
      currentImage (getState (store (fetchImage f env ls))) = currentImage (getState ls) \<and>
      returned (fetchImage f env ls) = Inr (cachedUrl (currentImage (getState ls))) \<and>
      (\<forall>c. currentImage (getState ls) = Some c \<and> url c \<noteq> [] \<longrightarrow>
         returned (fetchImage f env ls) = Inr (Some (url c)))) \<and>
   (nextAttempted env ls \<and> rateLimited env \<longrightarrow>
      retryCount (getState (store (fetchNextScreen env ls))) = retryCount (getState ls) + 1 \<and>
      retryAfter (getState (store (fetchNextScreen env ls))) =
        Some (now_limited env + min (1000 * 2 ^ (retryCount (getState ls) + 1)) 300000) \<and>
      currentImage (getState (store (fetchNextScreen env ls))) = currentImage (getState ls) \<and>
      returned (fetchNextScreen env ls) = Inr None)"
  by (simp add: fetchImage_limited fetchNextScreen_limited getState_backedOff backoffMs_def
      cachedUrl_Some)

theorem rate_limited_backoff_witness:
  "imageAttempted False envLimited exStorage \<and> nextAttempted envLimited exStorage \<and>
   rateLimited envLimited \<and>
   currentImage (getState exStorage) = Some exImage \<and> url exImage \<noteq> [] \<and>
   retryCount (getState (store (fetchImage False envLimited exStorage))) = 4 \<and>
   retryAfter (getState (store (fetchImage False envLimited exStorage))) = Some 22000 \<and>
   returned (fetchImage False envLimited exStorage) = Inr (Some (url exImage)) \<and>
   retryCount (getState (store (fetchNextScreen envLimited exStorage))) = 4 \<and>
   retryAfter (getState (store (fetchNextScreen envLimited exStorage))) = Some 22000 \<and>
   returned (fetchNextScreen envLimited exStorage) = Inr None"
proof -
  have t: "now_limited envLimited = 6000" "url exImage \<noteq> []"
    by (simp_all add: env_defs exImage_def)
  show ?thesis
    using rate_limited_backoff [where f = False and env = envLimited and ls = exStorage]
    by (auto simp add: exStorage_attempted ex_kinds t getState_exStorage)
qed

section \<open>HTTP 401 and 403\<close>

lemma triggerSpecialFunction_unauthorized:
  assumes "\<not> noApiKey (selectedDevice (getState ls))" "st = 401 \<or> st = 403"
  shows "triggerSpecialFunction (Resolved st body) ls =
           \<lparr>returned = Inr False, store = ls,
            sent = [specialRequest (environment (getState ls))
                      (api_key (the (selectedDevice (getState ls))))]\<rparr>"
  using assms by (auto simp add: triggerSpecialFunction_def triggerSpecialFunction_try_def Let_def)

text \<open>
  C4, as the claim states it, fails for \<^verbatim>\<open>triggerSpecialFunction\<close>: on HTTP 401 it
  returns \<^verbatim>\<open>false\<close> and leaves \<^verbatim>\<open>retryCount\<close> and \<^verbatim>\<open>retryAfter\<close> as they were.
\<close>

theorem special_function_keeps_retry_state:
  "\<not> noApiKey (selectedDevice (getState exStorage)) \<and>
   returned (triggerSpecialFunction (Resolved 401 (None :: unit option)) exStorage) = Inr False \<and>
   retryCount (getState (store
     (triggerSpecialFunction (Resolved 401 (None :: unit option)) exStorage))) = 3 \<and>
   retryAfter (getState (store
     (triggerSpecialFunction (Resolved 401 (None :: unit option)) exStorage))) = Some 5000"
proof -
  have k: "\<not> noApiKey (selectedDevice (getState exStorage))"
    "retryCount (getState exStorage) = 3" "retryAfter (getState exStorage) = Some 5000"
    by (simp_all add: noApiKey_def getState_exStorage exDevice_def)
  then show ?thesis
    by (simp add: triggerSpecialFunction_unauthorized)
qed

text \<open>
  C4, amended. On HTTP 401 or 403 \<^verbatim>\<open>fetchImage\<close> and \<^verbatim>\<open>fetchNextScreen\<close> return
  \<^verbatim>\<open>null\<close> without throwing and store \<^verbatim>\<open>retryCount = 0\<close>, \<^verbatim>\<open>retryAfter = null\<close>.
  \<^verbatim>\<open>triggerSpecialFunction\<close> returns \<^verbatim>\<open>false\<close> without throwing and leaves the store,
  the retry counters with it, as it was.
\<close>

theorem unauthorized_response:
  "(imageAttempted f env ls \<and> unauthorized env \<longrightarrow>
      returned (fetchImage f env ls) = Inr None \<and>
      retryCount (getState (store (fetchImage f env ls))) = 0 \<and>
      retryAfter (getState (store (fetchImage f env ls))) = None) \<and>
   (nextAttempted env ls \<and> unauthorized env \<longrightarrow>
      returned (fetchNextScreen env ls) = Inr None \<and>
      retryCount (getState (store (fetchNextScreen env ls))) = 0 \<and>
      retryAfter (getState (store (fetchNextScreen env ls))) = None) \<and>
   (\<not> noApiKey (selectedDevice (getState ls)) \<and> (st = 401 \<or> st = 403) \<longrightarrow>
      returned (triggerSpecialFunction (Resolved st body) ls) = Inr False \<and>
      store (triggerSpecialFunction (Resolved st body) ls) = ls)"
  by (simp add: fetchImage_unauthorized fetchNextScreen_unauthorized getState_resetRetry
      triggerSpecialFunction_unauthorized)

theorem unauthorized_response_witness:
  "imageAttempted False envUnauthorized exStorage \<and> nextAttempted envUnauthorized exStorage \<and>
   unauthorized envUnauthorized \<and> \<not> noApiKey (selectedDevice (getState exStorage)) \<and>
   retryCount (getState exStorage) = 3 \<and>
   returned (fetchImage False envUnauthorized exStorage) = Inr None \<and>
   retryCount (getState (store (fetchImage False envUnauthorized exStorage))) = 0 \<and>
   retryAfter (getState (store (fetchImage False envUnauthorized exStorage))) = None \<and>
   returned (fetchNextScreen envUnauthorized exStorage) = Inr None \<and>
   retryCount (getState (store (fetchNextScreen envUnauthorized exStorage))) = 0 \<and>
   returned (triggerSpecialFunction (Resolved 403 (None :: unit option)) exStorage) = Inr False \<and>
   store (triggerSpecialFunction (Resolved 403 (None :: unit option)) exStorage) = exStorage"
proof -
  have k: "\<not> noApiKey (selectedDevice (getState exStorage))"
    "retryCount (getState exStorage) = 3"
    by (simp_all add: noApiKey_def getState_exStorage exDevice_def)
  show ?thesis
    using unauthorized_response [where f = False and env = envUnauthorized and ls = exStorage
        and st = 403 and body = "None :: unit option"]
    by (auto simp add: exStorage_attempted ex_kinds k)
qed

section \<open>The back-off window\<close>

text \<open>
  C5, as the claim states it, fails for \<^verbatim>\<open>fetchNextScreen\<close>: inside the window, with an
  image in the cache, it returns \<^verbatim>\<open>null\<close> and not the cached URL.
\<close>

theorem backoff_next_screen_returns_null:
  "retryAfter (getState exStorage) = Some 5000 \<and> now_backoff envEarly < 5000 \<and>
   cachedUrl (currentImage (getState exStorage)) = Some ''data:image/png;base64,AAAA'' \<and>
   returned (fetchNextScreen envEarly exStorage) = Inr None \<and>
   returned (fetchNextScreen envEarly exStorage) \<noteq>
     Inr (cachedUrl (currentImage (getState exStorage)))"
proof -
  have h: "retryAfter (getState exStorage) = Some 5000" "now_backoff envEarly < 5000"
    by (simp_all add: getState_exStorage env_defs)
  then have "\<not> nextAttempted envEarly exStorage"
    by (simp add: nextAttempted_def inBackoff_def)
  then show ?thesis
    using h by (simp add: cachedUrl_exImage fetchNextScreen_not_attempted)
qed

text \<open>
  C5, amended. While \<^verbatim>\<open>retryAfter\<close> is set and the clock is before it,
  \<^verbatim>\<open>fetchImage(false)\<close> sends no request, leaves the store as it is, and returns
  \<^verbatim>\<open>currentImage?.url || null\<close>: the cached URL when an image with a non-empty URL is
  cached, \<^verbatim>\<open>null\<close> when no image is. \<^verbatim>\<open>fetchNextScreen\<close>, which has no
  \<^verbatim>\<open>forceRefresh\<close> parameter, sends no request, leaves the store as it is, and returns
  \<^verbatim>\<open>null\<close>.
\<close>

theorem backoff_short_circuit:
  assumes "retryAfter (getState ls) = Some t" and "now_backoff env < t"
  shows "fetchImage False env ls =
           \<lparr>returned = Inr (cachedUrl (currentImage (getState ls))), store = ls, sent = []\<rparr> \<and>
         (currentImage (getState ls) = None \<longrightarrow> returned (fetchImage False env ls) = Inr None) \<and>
         (\<forall>c. currentImage (getState ls) = Some c \<and> url c \<noteq> [] \<longrightarrow>
            returned (fetchImage False env ls) = Inr (Some (url c))) \<and>
         fetchNextScreen env ls = \<lparr>returned = Inr None, store = ls, sent = []\<rparr>"
proof -
  from assms have b: "inBackoff (retryAfter (getState ls)) (now_backoff env)"
    by (simp add: inBackoff_def)
  then have "fetchImage False env ls =
      \<lparr>returned = Inr (cachedUrl (currentImage (getState ls))), store = ls, sent = []\<rparr>"
    by (simp add: fetchImage_def)
  moreover from b have "fetchNextScreen env ls = \<lparr>returned = Inr None, store = ls, sent = []\<rparr>"
    by (simp add: fetchNextScreen_def)
  ultimately show ?thesis
    by (simp add: cachedUrl_Some) (simp add: cachedUrl_def)
qed

theorem backoff_short_circuit_witness:
  "retryAfter (getState exStorage) = Some 5000 \<and> now_backoff envEarly < 5000 \<and>
   currentImage (getState exStorage) = Some exImage \<and> url exImage \<noteq> [] \<and>
   fetchImage False envEarly exStorage =
     \<lparr>returned = Inr (Some (url exImage)), store = exStorage, sent = []\<rparr> \<and>
   fetchNextScreen envEarly exStorage = \<lparr>returned = Inr None, store = exStorage, sent = []\<rparr>"
proof -
  have h: "retryAfter (getState exStorage) = Some 5000" "now_backoff envEarly < 5000"
    "url exImage \<noteq> []" "currentImage (getState exStorage) = Some exImage"
    by (simp_all add: getState_exStorage env_defs exImage_def)
  show ?thesis
    using backoff_short_circuit [OF h(1) h(2)] h by (simp add: cachedUrl_Some)
qed

section \<open>First setup\<close>

lemma hasCompletedFirstSetup_updateState:
  "hasCompletedFirstSetup d (snd (updateState u ls)) = hasCompletedFirstSetup d ls"
  by (simp add: hasCompletedFirstSetup_def updateState_store_cases)

lemma hasCompletedFirstSetup_mark:
  "hasCompletedFirstSetup d (markFirstSetupComplete d' ls) =
     ((d = d' \<and> markable d' ls) \<or> hasCompletedFirstSetup d ls)"
  by (auto simp add: hasCompletedFirstSetup_def markFirstSetupComplete_def markable_def
      getStorageItem_def Let_def)

lemma markable_updateState: "markable d (snd (updateState u ls)) = markable d ls"
  by (simp add: markable_def updateState_store_cases)

lemma hasCompletedFirstSetup_backedOff:
  "hasCompletedFirstSetup d (backedOff t ls) = hasCompletedFirstSetup d ls"
  by (simp add: backedOff_def hasCompletedFirstSetup_updateState)

text \<open>
  Where the metadata request of \<^verbatim>\<open>fetchImage\<close> goes: to \<^verbatim>\<open>/api/display\<close> while the
  flag of the device is not \<^verbatim>\<open>true\<close>, to \<^verbatim>\<open>/api/current_screen\<close> once it is.
\<close>

lemma fetchImage_first_request:
  assumes "imageAttempted f env ls"
  shows "hd (sent (fetchImage f env ls)) = metadataRequestOf ls"
proof -
  consider "unauthorized env" | "rateLimited env" | "imageThrows f env ls"
    | "imageUnchanged f env ls"
    | data ist imageDataUrl where "\<not> imageUnchanged f env ls"
        "screenData env = Some data" "download env = Resolved ist (Some imageDataUrl)" "ok ist"
    using fetchImage_kinds [of f env ls] assms by blast
  then show ?thesis
  proof cases
    case 1
    with assms show ?thesis by (simp add: fetchImage_unauthorized)
  next
    case 2
    with assms show ?thesis by (simp add: fetchImage_limited)
  next
    case 3
    let ?t = "fetchImage_try f env (metadataRequestOf ls) (isFirstSetupOf ls)
                (deviceIdOf (selectedDevice (getState ls))) (currentImage (getState ls))
                (retryCount (getState ls)) ls"
    from fetchImage_try_throws [OF 3] obtain e where e: "returned ?t = Inl e" by blast
    have "hd (sent ?t) = metadataRequestOf ls"
      by (simp add: fetchImage_try_def Let_def split: FetchResult.split option.split)
    with e show ?thesis by (simp add: fetchImage_attempted [OF assms] Let_def)
  next
    case 4
    then obtain data c where "screenData env = Some data" "currentImage (getState ls) = Some c"
      by (auto simp add: imageUnchanged_def split: option.splits)
    with assms 4 show ?thesis by (simp add: fetchImage_unchanged)
  next
    case 5
    with assms show ?thesis by (simp add: fetchImage_downloaded)
  qed
qed

lemma req_url_metadataRequestOf:
  "req_url (metadataRequestOf ls) =
     (if hasCompletedFirstSetup (deviceIdOf (selectedDevice (getState ls))) ls
      then getApiUrl (environment (getState ls))
      else displayUrl (environment (getState ls)))"
  by (simp add: metadataRequestOf_def screenRequest_def isFirstSetupOf_def)

text \<open>
  The flag of a device after a call of \<^verbatim>\<open>fetchImage\<close>: it was set before, or the call
  was the first-setup call for this device and downloaded and stored an image (and the
  device id is one whose key the assignment sets). The unchanged-image return does not
  set it.
\<close>

lemma fetchImage_first_setup_flag:
  "hasCompletedFirstSetup d (store (fetchImage f env ls)) =
     (hasCompletedFirstSetup d ls \<or>
      (d = deviceIdOf (selectedDevice (getState ls)) \<and> markable d ls \<and>
       imageAttempted f env ls \<and>
       screenData env \<noteq> None \<and> \<not> imageUnchanged f env ls \<and> \<not> downloadThrows env))"
proof -
  consider "\<not> imageAttempted f env ls"
    | "imageAttempted f env ls" "unauthorized env"
    | "imageAttempted f env ls" "rateLimited env"
    | "imageAttempted f env ls" "imageThrows f env ls"
    | "imageAttempted f env ls" "imageUnchanged f env ls"
    | data ist imageDataUrl where "imageAttempted f env ls" "\<not> imageUnchanged f env ls"
        "screenData env = Some data" "download env = Resolved ist (Some imageDataUrl)" "ok ist"
    using fetchImage_kinds [of f env ls] by blast
  then show ?thesis
  proof cases
    case 1
    then show ?thesis by (simp add: fetchImage_not_attempted)
  next
    case 2
    then show ?thesis
      using not_ok_special
      by (auto simp add: fetchImage_unauthorized hasCompletedFirstSetup_updateState
          unauthorized_def screenData_def split: FetchResult.splits)
  next
    case 3
    then show ?thesis
      using not_ok_special
      by (auto simp add: fetchImage_limited hasCompletedFirstSetup_backedOff
          rateLimited_def screenData_def split: FetchResult.splits)
  next
    case 4
    then show ?thesis
      by (auto simp add: fetchImage_throws hasCompletedFirstSetup_backedOff imageThrows_def
          metadataThrows_def screenData_def split: FetchResult.splits)
  next
    case 5
    then obtain data c where "screenData env = Some data" "currentImage (getState ls) = Some c"
      by (auto simp add: imageUnchanged_def split: option.splits)
    with 5 show ?thesis
      by (simp add: fetchImage_unchanged hasCompletedFirstSetup_updateState)
  next
    case 6
    then show ?thesis
      by (auto simp add: fetchImage_downloaded hasCompletedFirstSetup_updateState
          hasCompletedFirstSetup_mark markable_updateState isFirstSetupOf_def downloadThrows_def)
  qed
qed

text \<open>
  C6, on a failing input. The store has the device \<open>d1\<close> selected, no first-setup flag
  for it, and a cached image that came from \<^verbatim>\<open>https://x/a.png\<close>. The call
  \<^verbatim>\<open>fetchImage(false)\<close> goes to \<^verbatim>\<open>/api/display\<close>, is answered 200 with that same
  \<^verbatim>\<open>image_url\<close>, and returns the cached image: it has succeeded. The flag of \<open>d1\<close> is
  still not set, and the next call goes to \<^verbatim>\<open>/api/display\<close> again.
\<close>

theorem first_setup_unmarked_after_unchanged_image:
  "\<not> hasCompletedFirstSetup ''d1'' exStorage \<and>
   deviceIdOf (selectedDevice (getState exStorage)) = ''d1'' \<and>
   req_url (hd (sent (fetchImage False envSame exStorage))) =
     ''https://usetrmnl.com/api/display'' \<and>
   sent (fetchImage False envSame exStorage) = [metadataRequestOf exStorage] \<and>
   returned (fetchImage False envSame exStorage) = Inr (Some ''data:image/png;base64,AAAA'') \<and>
   \<not> hasCompletedFirstSetup ''d1'' (store (fetchImage False envSame exStorage)) \<and>
   req_url (hd (sent (fetchImage False envSame (store (fetchImage False envSame exStorage))))) =
     ''https://usetrmnl.com/api/display''"
proof -
  let ?ls1 = "store (fetchImage False envSame exStorage)"
  have g: "currentImage (getState exStorage) = Some exImage"
    "selectedDevice (getState exStorage) = Some exDevice"
    "environment (getState exStorage) = production"
    by (simp_all add: getState_exStorage)
  have d: "deviceIdOf (Some exDevice) = ''d1''"
    by (simp add: deviceIdOf_def exDevice_def)
  have n: "\<not> hasCompletedFirstSetup ''d1'' exStorage"
    by (simp add: hasCompletedFirstSetup_def exStorage_def getStorageItem_def)
  have u: "displayUrl production = ''https://usetrmnl.com/api/display''"
    by (simp add: displayUrl_def getBaseUrl_def HOSTS_def)
  have first: "fetchImage False envSame exStorage =
      \<lparr>returned = Inr (Some (url exImage)),
       store = snd (updateState (unchangedUpdate (now_parsed envSame)
                 (refreshRateOf (exData ''https://x/a.png''))) exStorage),
       sent = [metadataRequestOf exStorage]\<rparr>"
    using exStorage_attempted(7) ex_kinds(7) ex_kinds(5) g(1) by (rule fetchImage_unchanged)
  have s1: "getState ?ls1 =
      (getState exStorage)\<lparr>lastFetch := Some (now_parsed envSame),
         nextFetch := Some (now_parsed envSame + refreshRateOf (exData ''https://x/a.png'') * 1000),
         refreshRate := refreshRateOf (exData ''https://x/a.png''),
         retryCount := 0, retryAfter := None\<rparr>"
    by (simp add: first getState_unchangedUpdate)
  have n1: "\<not> hasCompletedFirstSetup ''d1'' ?ls1"
    using n by (simp add: first hasCompletedFirstSetup_updateState)
  have a1: "imageAttempted False envSame ?ls1"
    by (simp add: imageAttempted_def s1 inBackoff_def g noApiKey_def exDevice_def)
  have r0: "req_url (metadataRequestOf exStorage) = ''https://usetrmnl.com/api/display''"
    using n by (simp add: req_url_metadataRequestOf g d u)
  have r1: "req_url (metadataRequestOf ?ls1) = ''https://usetrmnl.com/api/display''"
    using n1 by (simp add: req_url_metadataRequestOf s1 g d u)
  show ?thesis
    using n n1 r1 r0 by (simp add: fetchImage_first_request [OF a1] g d) (simp add: first exImage_def)
qed

section \<open>The refresh schedule\<close>

lemma sameSchedule_refl: "sameSchedule s s"
  by (simp add: sameSchedule_def)

lemma sameSchedule_trans:
  "sameSchedule s s' \<Longrightarrow> sameSchedule s' s'' \<Longrightarrow> sameSchedule s s''"
  by (simp add: sameSchedule_def)

lemma sameSchedule_inv: "sameSchedule s s' \<Longrightarrow> schedulerInv s \<Longrightarrow> schedulerInv s'"
  by (auto simp add: sameSchedule_def schedulerInv_def split: option.splits)

lemma writtenTogether_inv: "writtenTogether s' \<Longrightarrow> schedulerInv s'"
  by (auto simp add: writtenTogether_def schedulerInv_def split: option.splits)

lemma writtenTogether_same:
  "sameSchedule s s' \<Longrightarrow> writtenTogether s \<Longrightarrow> writtenTogether s'"
  by (auto simp add: sameSchedule_def writtenTogether_def split: option.splits)

lemma no_nextFetch_inv: "nextFetch s' = None \<Longrightarrow> schedulerInv s'"
  by (simp add: schedulerInv_def)

lemma sameSchedule_updateState:
  "upd_lastFetch u = None \<Longrightarrow> upd_nextFetch u = None \<Longrightarrow> upd_refreshRate u = None \<Longrightarrow>
   sameSchedule (getState ls) (getState (snd (updateState u ls)))"
  by (simp add: sameSchedule_def getState_updateState)

lemma sameSchedule_resetRetry:
  "sameSchedule (getState ls) (getState (snd (updateState resetRetry ls)))"
  by (simp add: sameSchedule_updateState resetRetry_def no_updates_def)

lemma sameSchedule_backedOff: "sameSchedule (getState ls) (getState (backedOff t ls))"
  by (simp add: sameSchedule_def getState_backedOff)

lemma writtenTogether_unchangedUpdate:
  "writtenTogether (getState (snd (updateState (unchangedUpdate t r) ls)))"
  by (simp add: writtenTogether_def getState_unchangedUpdate)

lemma writtenTogether_storeImage:
  "writtenTogether (getState (snd (updateState (storeImage u ou fn t r) ls)))"
  by (simp add: writtenTogether_def getState_storeImage)

lemma fetchImage_schedule:
  "sameSchedule (getState ls) (getState (store (fetchImage f env ls))) \<or>
   writtenTogether (getState (store (fetchImage f env ls)))"
proof -
  consider "\<not> imageAttempted f env ls"
    | "imageAttempted f env ls" "unauthorized env"
    | "imageAttempted f env ls" "rateLimited env"
    | "imageAttempted f env ls" "imageThrows f env ls"
    | "imageAttempted f env ls" "imageUnchanged f env ls"
    | data ist imageDataUrl where "imageAttempted f env ls" "\<not> imageUnchanged f env ls"
        "screenData env = Some data" "download env = Resolved ist (Some imageDataUrl)" "ok ist"
    using fetchImage_kinds [of f env ls] by blast
  then show ?thesis
  proof cases
    case 1
    then show ?thesis by (simp add: fetchImage_not_attempted sameSchedule_refl)
  next
    case 2
    then show ?thesis by (simp add: fetchImage_unauthorized sameSchedule_resetRetry)
  next
    case 3
    then show ?thesis by (simp add: fetchImage_limited sameSchedule_backedOff)
  next
    case 4
    then show ?thesis by (simp add: fetchImage_throws sameSchedule_backedOff)
  next
    case 5
    then obtain data c where "screenData env = Some data" "currentImage (getState ls) = Some c"
      by (auto simp add: imageUnchanged_def split: option.splits)
    with 5 show ?thesis
      by (simp add: fetchImage_unchanged writtenTogether_unchangedUpdate)
  next
    case 6
    then show ?thesis
      by (simp add: fetchImage_downloaded getState_markFirstSetupComplete
          writtenTogether_storeImage)
  qed
qed

lemma fetchNextScreen_schedule:
  "sameSchedule (getState ls) (getState (store (fetchNextScreen env ls))) \<or>
   writtenTogether (getState (store (fetchNextScreen env ls)))"
proof -
  consider "\<not> nextAttempted env ls"
    | "nextAttempted env ls" "unauthorized env"
    | "nextAttempted env ls" "rateLimited env"
    | "nextAttempted env ls" "nextThrows env"
    | data ist imageDataUrl where "nextAttempted env ls"
        "screenData env = Some data" "download env = Resolved ist (Some imageDataUrl)" "ok ist"
    using fetchNextScreen_kinds [of env ls] by blast
  then show ?thesis
  proof cases
    case 1
    then show ?thesis by (simp add: fetchNextScreen_not_attempted sameSchedule_refl)
  next
    case 2
    then show ?thesis by (simp add: fetchNextScreen_unauthorized sameSchedule_resetRetry)
  next
    case 3
    then show ?thesis by (simp add: fetchNextScreen_limited sameSchedule_backedOff)
  next
    case 4
    then show ?thesis by (simp add: fetchNextScreen_throws sameSchedule_backedOff)
  next
    case 5
    then show ?thesis
      by (simp add: fetchNextScreen_downloaded writtenTogether_storeImage)
  qed
qed

lemma fetchDevices_try_store:
  "store (fetchDevices_try e response stored ls) = ls \<or>
   (\<exists>v. store (fetchDevices_try e response stored ls) =
      snd (updateState (no_updates\<lparr>upd_devices := Some v\<rparr>) ls)) \<or>
   (\<exists>v. store (fetchDevices_try e response stored ls) =
      snd (updateState (no_updates\<lparr>upd_selectedDevice := firstOf v\<rparr>)
        (snd (updateState (no_updates\<lparr>upd_devices := Some v\<rparr>) ls))))"
proof (cases response)
  case Rejected
  then show ?thesis by (simp add: fetchDevices_try_def)
next
  case (Resolved st body)
  show ?thesis
  proof (cases "st = 401 \<or> st = 403 \<or> \<not> ok st \<or> body = None")
    case True
    with Resolved have "store (fetchDevices_try e response stored ls) = ls"
      by (auto simp add: fetchDevices_try_def split: sum.split)
    then show ?thesis ..
  next
    case False
    then obtain v where "body = Some v" "st \<noteq> 401" "st \<noteq> 403" "ok st" by auto
    with Resolved show ?thesis
      by (auto simp add: fetchDevices_try_def Let_def split: sum.split)
  qed
qed

lemma fetchDevices_store:
  "store (fetchDevices e response ls) = store (fetchDevices_try e response (storedDevicesOf ls) ls)"
  by (simp add: fetchDevices_def storedDevicesOf_def Let_def split: sum.split)

lemma fetchDevices_schedule:
  "sameSchedule (getState ls) (getState (store (fetchDevices e response ls)))"
proof -
  have 1: "sameSchedule (getState ls)
      (getState (snd (updateState (no_updates\<lparr>upd_devices := Some v\<rparr>) ls)))" for v
    by (simp add: sameSchedule_updateState no_updates_def)
  have 2: "sameSchedule (getState ls)
      (getState (snd (updateState (no_updates\<lparr>upd_selectedDevice := firstOf v\<rparr>)
        (snd (updateState (no_updates\<lparr>upd_devices := Some v\<rparr>) ls)))))" for v
    by (rule sameSchedule_trans [OF 1 [of v]]) (simp add: sameSchedule_updateState no_updates_def)
  from fetchDevices_try_store [of e response "storedDevicesOf ls" ls] show ?thesis
    unfolding fetchDevices_store using 1 2 sameSchedule_refl [of "getState ls"] by auto
qed

lemma triggerSpecialFunction_store: "store (triggerSpecialFunction response ls) = ls"
  by (simp add: triggerSpecialFunction_def triggerSpecialFunction_try_def Let_def
      split: FetchResult.split sum.split)

lemma saveManualApiKey_schedule:
  "sameSchedule (getState ls) (getState (store (saveManualApiKey apiKey env ls))) \<or>
   writtenTogether (getState (store (saveManualApiKey apiKey env ls)))"
proof -
  let ?ls1 = "snd (updateState
          (no_updates\<lparr>upd_devices := Some (DevicesArray [manualDevice apiKey]),
             upd_selectedDevice := Some (Some (manualDevice apiKey)),
             upd_retryCount := Some 0, upd_retryAfter := Some None\<rparr>) ls)"
  have 1: "sameSchedule (getState ls) (getState ?ls1)"
    by (simp add: sameSchedule_updateState no_updates_def)
  from fetchImage_schedule [of ?ls1 True env] sameSchedule_trans [OF 1] show ?thesis
    by (auto simp add: saveManualApiKey_def)
qed

lemma step_schedule:
  "sameSchedule (getState ls) (getState (step ls op)) \<or>
   writtenTogether (getState (step ls op)) \<or>
   nextFetch (getState (step ls op)) = None"
proof (cases op)
  case (FetchImage f env)
  then show ?thesis using fetchImage_schedule [of ls f env] by auto
next
  case (FetchNextScreen env)
  then show ?thesis using fetchNextScreen_schedule [of ls env] by auto
next
  case (FetchDevices e response)
  then show ?thesis by (simp add: fetchDevices_schedule)
next
  case (TriggerSpecialFunction response)
  then show ?thesis by (simp add: triggerSpecialFunction_store sameSchedule_refl)
next
  case (SelectDevice device)
  then show ?thesis by (simp add: selectDevice_def sameSchedule_updateState no_updates_def)
next
  case (SetEnvironment e)
  then show ?thesis by (simp add: setEnvironment_def sameSchedule_updateState no_updates_def)
next
  case (SaveManualApiKey apiKey env)
  then show ?thesis using saveManualApiKey_schedule [of ls apiKey env] by auto
next
  case ClearState
  then show ?thesis by (simp add: clearState_def getState_def getStorageItem_def)
qed

lemma step_schedulerInv:
  "schedulerInv (getState ls) \<Longrightarrow> schedulerInv (getState (step ls op))"
  using step_schedule [of ls op] sameSchedule_inv writtenTogether_inv no_nextFetch_inv by blast

lemma foldl_step_schedulerInv:
  "schedulerInv (getState ls) \<Longrightarrow> schedulerInv (getState (foldl step ls ops))"
  by (induction ops arbitrary: ls) (simp_all add: step_schedulerInv)

lemma schedulerInv_emptyStorage: "schedulerInv (getState emptyStorage)"
  by (simp add: schedulerInv_def getState_def getStorageItem_def emptyStorage_def)

text \<open>
  C7. Every operation that writes the store either leaves \<^verbatim>\<open>lastFetch\<close>, \<^verbatim>\<open>nextFetch\<close> and
  \<^verbatim>\<open>refreshRate\<close> all three as they were, or leaves them written together with
  \<^verbatim>\<open>nextFetch = lastFetch + refreshRate * 1000\<close>, or (\<^verbatim>\<open>clearState\<close>) leaves no
  \<^verbatim>\<open>nextFetch\<close>. Hence each operation keeps the invariant that \<^verbatim>\<open>nextFetch\<close>, when set,
  is \<^verbatim>\<open>lastFetch + refreshRate * 1000\<close>, and the invariant holds after any sequence of
  operations from the store of a first load.
\<close>

theorem schedule_invariant:
  "(sameSchedule (getState ls) (getState (step ls op)) \<or>
    writtenTogether (getState (step ls op)) \<or>
    nextFetch (getState (step ls op)) = None) \<and>
   (schedulerInv (getState ls) \<longrightarrow> schedulerInv (getState (step ls op))) \<and>
   schedulerInv (getState (foldl step emptyStorage ops)) \<and>
   (\<forall>nf. nextFetch (getState (foldl step emptyStorage ops)) = Some nf \<longrightarrow>
      (\<exists>lf. lastFetch (getState (foldl step emptyStorage ops)) = Some lf \<and>
         nf = lf + refreshRate (getState (foldl step emptyStorage ops)) * 1000))"
proof -
  have inv: "schedulerInv (getState (foldl step emptyStorage ops))"
    by (rule foldl_step_schedulerInv [OF schedulerInv_emptyStorage])
  then have "\<forall>nf. nextFetch (getState (foldl step emptyStorage ops)) = Some nf \<longrightarrow>
      (\<exists>lf. lastFetch (getState (foldl step emptyStorage ops)) = Some lf \<and>
         nf = lf + refreshRate (getState (foldl step emptyStorage ops)) * 1000)"
    by (auto simp add: schedulerInv_def split: option.splits)
  with inv show ?thesis
    using step_schedule [of ls op] step_schedulerInv [of ls op] by blast
qed

lemma getState_selected_empty:
  "getState (selectDevice exDevice emptyStorage) =
     \<lparr>environment = production, devices = DevicesArray [], selectedDevice = Some exDevice,
      currentImage = None, lastFetch = None, nextFetch = None,
      refreshRate = 30, retryCount = 0, retryAfter = None\<rparr>"
  by (simp add: selectDevice_def getState_updateState no_updates_def)
    (simp add: getState_def getStorageItem_def emptyStorage_def DEFAULT_REFRESH_RATE_def)

lemma fetchImage_new_after_select:
  "getState (store (fetchImage False envNew (selectDevice exDevice emptyStorage))) =
     \<lparr>environment = production, devices = DevicesArray [], selectedDevice = Some exDevice,
      currentImage = Some \<lparr>url = ''data:image/png;base64,BBBB'',
        originalUrl = ''https://x/b.png'', filename = ''display.jpg'', timestamp = 6000\<rparr>,
      lastFetch = Some 6000, nextFetch = Some 66000,
      refreshRate = 60, retryCount = 0, retryAfter = None\<rparr>"
proof -
  let ?ls = "selectDevice exDevice emptyStorage"
  have k: "api_key exDevice \<noteq> []"
    by (simp add: exDevice_def)
  have a: "imageAttempted False envNew ?ls"
    by (simp add: imageAttempted_def getState_selected_empty inBackoff_def noApiKey_def k)
  have u: "\<not> imageUnchanged False envNew ?ls"
    by (simp add: imageUnchanged_def getState_selected_empty split: option.splits)
  have d: "download envNew = Resolved 200 (Some ''data:image/png;base64,BBBB'')" "ok 200"
    by (simp_all add: env_defs ok_def)
  have v: "image_url (exData ''https://x/b.png'') = ''https://x/b.png''"
    "filenameOf (exData ''https://x/b.png'') = ''display.jpg''"
    "refreshRateOf (exData ''https://x/b.png'') = 60" "now_parsed envNew = 6000"
    by (simp_all add: env_defs filenameOf_def refreshRateOf_def)
  show ?thesis
    by (simp add: fetchImage_downloaded [OF a u ex_kinds(6) d] getState_markFirstSetupComplete
        getState_storeImage getState_selected_empty v)
qed

theorem schedule_invariant_witness:
  "schedulerInv (getState exStorage) \<and>
   schedulerInv (getState (step exStorage (FetchImage False envNew))) \<and>
   \<not> sameSchedule (getState (selectDevice exDevice emptyStorage))
        (getState (step (selectDevice exDevice emptyStorage) (FetchImage False envNew))) \<and>
   writtenTogether
     (getState (step (selectDevice exDevice emptyStorage) (FetchImage False envNew))) \<and>
   nextFetch (getState (foldl step emptyStorage [SelectDevice exDevice, FetchImage False envNew]))
     = Some 66000 \<and>
   lastFetch (getState (foldl step emptyStorage [SelectDevice exDevice, FetchImage False envNew]))
     = Some 6000 \<and>
   refreshRate (getState (foldl step emptyStorage [SelectDevice exDevice, FetchImage False envNew]))
     = 60"
proof -
  have i: "schedulerInv (getState exStorage)"
    by (simp add: schedulerInv_def getState_exStorage)
  have n: "\<not> sameSchedule (getState (selectDevice exDevice emptyStorage))
        (getState (step (selectDevice exDevice emptyStorage) (FetchImage False envNew)))"
    by (simp add: sameSchedule_def fetchImage_new_after_select getState_selected_empty)
  have f: "nextFetch (getState (foldl step emptyStorage
             [SelectDevice exDevice, FetchImage False envNew])) = Some 66000"
    by (simp add: fetchImage_new_after_select)
  show ?thesis
    using schedule_invariant [where ls = exStorage and op = "FetchImage False envNew"
        and ops = "[SelectDevice exDevice, FetchImage False envNew]"]
      schedule_invariant [where ls = "selectDevice exDevice emptyStorage"
        and op = "FetchImage False envNew" and ops = "[]"]
      i n f
    by (auto simp add: fetchImage_new_after_select)
qed

section \<open>Which operations can throw\<close>

lemma fetchImage_returns: "\<exists>v. returned (fetchImage f env ls) = Inr v"
proof (cases "imageAttempted f env ls")
  case True
  show ?thesis
    by (cases "returned (fetchImage_try f env (metadataRequestOf ls) (isFirstSetupOf ls)
          (deviceIdOf (selectedDevice (getState ls))) (currentImage (getState ls))
          (retryCount (getState ls)) ls)")
      (simp_all add: fetchImage_attempted [OF True] Let_def)
next
  case False
  then show ?thesis using fetchImage_not_attempted(3) [OF False] by blast
qed

lemma fetchNextScreen_returns: "\<exists>v. returned (fetchNextScreen env ls) = Inr v"
proof (cases "nextAttempted env ls")
  case True
  show ?thesis
    by (cases "returned (fetchNextScreen_try env (nextRequestOf ls) (retryCount (getState ls)) ls)")
      (simp_all add: fetchNextScreen_attempted [OF True] Let_def)
next
  case False
  then show ?thesis by (simp add: fetchNextScreen_not_attempted)
qed

lemma triggerSpecialFunction_returns:
  "\<exists>v. returned (triggerSpecialFunction response ls) = Inr v"
proof (cases "noApiKey (selectedDevice (getState ls))")
  case True
  then have "returned (triggerSpecialFunction response ls) = Inr False"
    by (simp add: triggerSpecialFunction_def)
  then show ?thesis ..
next
  case False
  then show ?thesis
    by (cases "returned (triggerSpecialFunction_try response
          (specialRequest (environment (getState ls))
             (api_key (the (selectedDevice (getState ls))))) ls)")
      (auto simp add: triggerSpecialFunction_def Let_def)
qed

lemma triggerSpecialFunction_fails:
  "specialFails response \<Longrightarrow> returned (triggerSpecialFunction response ls) = Inr False"
  by (auto simp add: specialFails_def triggerSpecialFunction_def triggerSpecialFunction_try_def
      Let_def split: FetchResult.splits)

text \<open>
  \<^verbatim>\<open>fetchDevices\<close> returns a value as long as the stored \<^verbatim>\<open>devices\<close> entry is not
  \<^verbatim>\<open>null\<close>.
\<close>

lemma lengthPositive_not_null: "v \<noteq> DevicesNull \<Longrightarrow> \<exists>positive. lengthPositive v = Inr positive"
  by (cases v) (simp_all add: lengthPositive_def)

lemma fetchDevices_returns:
  assumes "storedDevicesOf ls \<noteq> DevicesNull"
  shows "\<exists>v. returned (fetchDevices e response ls) = Inr v"
proof -
  from lengthPositive_not_null [OF assms] obtain positive
    where p: "lengthPositive (getStorageItem (trmnl_devices ls) (DevicesArray [])) = Inr positive"
    by (auto simp add: storedDevicesOf_def)
  show ?thesis
    by (cases "returned (fetchDevices_try e response
          (getStorageItem (trmnl_devices ls) (DevicesArray [])) ls)")
      (simp_all add: fetchDevices_def Let_def p)
qed

text \<open>
  With \<^verbatim>\<open>null\<close> stored under \<^verbatim>\<open>devices\<close>, every failing request makes \<^verbatim>\<open>fetchDevices\<close>
  throw: the \<^verbatim>\<open>try\<close> block throws, and the \<^verbatim>\<open>catch\<close> block throws on
  \<^verbatim>\<open>storedDevices.length\<close>.
\<close>

lemma fetchDevices_try_fails_on_null:
  assumes "devicesFail response"
  shows "\<exists>err. returned (fetchDevices_try e response DevicesNull ls) = Inl err"
proof (cases response)
  case Rejected
  then show ?thesis by (simp add: fetchDevices_try_def)
next
  case (Resolved st body)
  show ?thesis
  proof (cases "ok st")
    case True
    with assms Resolved have "body = None" by (simp add: devicesFail_def)
    with Resolved True show ?thesis
      using ok_not_special [of st] by (simp add: fetchDevices_try_def)
  next
    case False
    with Resolved show ?thesis
      by (simp add: fetchDevices_try_def lengthPositive_def)
  qed
qed

lemma fetchDevices_raises:
  assumes "storedDevicesOf ls = DevicesNull" and "devicesFail response"
  shows "returned (fetchDevices e response ls) = Inl TypeError"
proof -
  from assms(1) have s: "getStorageItem (trmnl_devices ls) (DevicesArray []) = DevicesNull"
    by (simp add: storedDevicesOf_def)
  from fetchDevices_try_fails_on_null [OF assms(2)] obtain err
    where "returned (fetchDevices_try e response DevicesNull ls) = Inl err" by blast
  then show ?thesis
    by (simp add: fetchDevices_def Let_def s lengthPositive_def)
qed

text \<open>
  A 2xx answer is stored whatever its body is; with a device already selected the body is
  also what the call returns.
\<close>

lemma fetchDevices_stores_body:
  assumes "selectedDevice (getState ls) \<noteq> None" and "ok st"
  shows "fetchDevices e (Resolved st (Some v)) ls =
           \<lparr>returned = Inr v,
            store = snd (updateState (no_updates\<lparr>upd_devices := Some v\<rparr>) ls),
            sent = [devicesRequest e]\<rparr>"
proof -
  have "selectedDevice (getState (snd (updateState (no_updates\<lparr>upd_devices := Some v\<rparr>) ls)))
      = selectedDevice (getState ls)"
    by (simp add: getState_updateState no_updates_def)
  with assms show ?thesis
    using ok_not_special [of st]
    by (auto simp add: fetchDevices_def fetchDevices_try_def Let_def)
qed

text \<open>
  C8, on a failing input. The store has a device selected. A first call of
  \<^verbatim>\<open>fetchDevices\<close> is answered 200 with the JSON body \<^verbatim>\<open>null\<close>: it returns, and leaves
  \<^verbatim>\<open>null\<close> stored under \<^verbatim>\<open>devices\<close>. The next call, answered 401 or rejected by the
  network, throws a \<^verbatim>\<open>TypeError\<close> out of its \<^verbatim>\<open>catch\<close> block: the operation raises.
\<close>

theorem fetchDevices_raises_after_null_body:
  "returned (fetchDevices production (Resolved 200 (Some DevicesNull)) exStorage) =
     Inr DevicesNull \<and>
   trmnl_devices (store (fetchDevices production (Resolved 200 (Some DevicesNull)) exStorage)) =
     Some DevicesNull \<and>
   returned (fetchDevices production (Resolved 401 None)
     (store (fetchDevices production (Resolved 200 (Some DevicesNull)) exStorage))) =
     Inl TypeError \<and>
   returned (fetchDevices production Rejected
     (store (fetchDevices production (Resolved 200 (Some DevicesNull)) exStorage))) =
     Inl TypeError"
proof -
  let ?ls1 = "snd (updateState (no_updates\<lparr>upd_devices := Some DevicesNull\<rparr>) exStorage)"
  have sel: "selectedDevice (getState exStorage) \<noteq> None"
    by (simp add: getState_exStorage)
  have first: "fetchDevices production (Resolved 200 (Some DevicesNull)) exStorage =
      \<lparr>returned = Inr DevicesNull, store = ?ls1, sent = [devicesRequest production]\<rparr>"
    using sel by (rule fetchDevices_stores_body) (simp add: ok_def)
  have stored: "trmnl_devices ?ls1 = Some DevicesNull"
    by (simp add: updateState_store_cases no_updates_def)
  then have null: "storedDevicesOf ?ls1 = DevicesNull"
    by (simp add: storedDevicesOf_def getStorageItem_def)
  have f: "devicesFail (Resolved 401 None)" "devicesFail Rejected"
    by (simp_all add: devicesFail_def ok_def)
  show ?thesis
    by (simp add: first stored fetchDevices_raises [OF null f(1)]
        fetchDevices_raises [OF null f(2)])
qed

section \<open>The countdown string\<close>

lemma digit_cases:
  "k < 10 \<Longrightarrow> k = 0 \<or> k = 1 \<or> k = 2 \<or> k = 3 \<or> k = 4 \<or> k = 5 \<or> k = 6 \<or> k = 7 \<or> k = 8 \<or> k = (9::nat)"
  by arith

lemma digitValue_digitChar: "digitValue (digitChar d) = d mod 10"
proof -
  have "d mod 10 < 10" by simp
  from digit_cases [OF this] show ?thesis
    by (elim disjE) (simp_all add: digitValue_def digitChar_def)
qed

lemma isDigit_digitChar: "isDigit (digitChar d)"
proof -
  have "d mod 10 < 10" by simp
  from digit_cases [OF this] show ?thesis
    by (elim disjE) (simp_all add: isDigit_def digitChar_def)
qed

lemma decimalValue_snoc: "decimalValue (s @ [c]) = 10 * decimalValue s + digitValue c"
  by (simp add: decimalValue_def)

lemma decimalValue_toString: "decimalValue (toString n) = n"
proof (induction n rule: toString.induct)
  case (1 n)
  show ?case
  proof (cases "n < 10")
    case True
    then show ?thesis
      by (simp add: toString.simps [of n] decimalValue_def digitValue_digitChar)
  next
    case False
    with 1 show ?thesis
      by (simp add: toString.simps [of n] decimalValue_snoc digitValue_digitChar)
  qed
qed

lemma digits_toString: "\<forall>c\<in>set (toString n). isDigit c"
proof (induction n rule: toString.induct)
  case (1 n)
  show ?case
  proof (cases "n < 10")
    case True
    then show ?thesis by (simp add: toString.simps [of n] isDigit_digitChar)
  next
    case False
    with 1 show ?thesis by (simp add: toString.simps [of n] isDigit_digitChar)
  qed
qed

lemma length_toString_small: "n < 10 \<Longrightarrow> length (toString n) = 1"
  by (simp add: toString.simps [of n])

lemma length_toString_pos: "0 < length (toString n)"
  by (simp add: toString.simps [of n])

lemma length_toString_big: "10 \<le> n \<Longrightarrow> 2 \<le> length (toString n)"
  using length_toString_pos [of "n div 10"] by (simp add: toString.simps [of n] Suc_le_eq)

lemma length_toString_two: "10 \<le> n \<Longrightarrow> n < 100 \<Longrightarrow> length (toString n) = 2"
  using length_toString_small [of "n div 10"] by (simp add: toString.simps [of n])

lemma pad_small: "n < 10 \<Longrightarrow> pad n = [CHR ''0'', digitChar n]"
  by (simp add: pad_def padStart_def toString.simps [of n])

lemma pad_big: "10 \<le> n \<Longrightarrow> pad n = toString n"
  using length_toString_big [of n] by (simp add: pad_def padStart_def)

lemma digitValue_zero: "digitValue (CHR ''0'') = 0"
  by (simp add: digitValue_def)

lemma decimalValue_pad: "decimalValue (pad n) = n"
proof (cases "n < 10")
  case True
  then show ?thesis
    by (simp add: pad_small decimalValue_def digitValue_zero digitValue_digitChar)
next
  case False
  then show ?thesis by (simp add: pad_big decimalValue_toString)
qed

lemma length_pad: "2 \<le> length (pad n)" "n < 100 \<Longrightarrow> length (pad n) = 2"
proof -
  show "2 \<le> length (pad n)"
    by (cases "n < 10") (simp_all add: pad_small pad_big length_toString_big)
  show "n < 100 \<Longrightarrow> length (pad n) = 2"
    by (cases "n < 10") (simp_all add: pad_small pad_big length_toString_two)
qed

lemma digits_pad: "\<forall>c\<in>set (pad n). isDigit c"
proof (cases "n < 10")
  case True
  then show ?thesis by (simp add: pad_small isDigit_digitChar) (simp add: isDigit_def)
next
  case False
  then show ?thesis by (simp add: pad_big digits_toString)
qed

lemma clock_fields:
  fixes r :: nat
  shows "r div 1000 div 3600 = r div 3600000"
    and "r div 1000 mod 3600 div 60 = r div 60000 mod 60"
    and "(0 < r div 3600000) = (3600000 \<le> r)"
proof -
  show 1: "r div 1000 div 3600 = r div 3600000"
    by (simp add: div_mult2_eq [symmetric])
  have "r div 1000 mod 3600 div 60 = r div 1000 div 60 mod 60"
    using mod_mult2_eq [of "r div 1000" 60 60] by simp
  then show "r div 1000 mod 3600 div 60 = r div 60000 mod 60"
    by (simp add: div_mult2_eq [symmetric])
  show "(0 < r div 3600000) = (3600000 \<le> r)"
    by (simp add: div_greater_zero_iff)
qed

text \<open>
  C9, as the claim states it, fails at \<^verbatim>\<open>nextFetch = 0\<close>: the value is present, and at
  time 0 nothing remains, yet the result is the placeholder and not \<^verbatim>\<open>00:00\<close>.
\<close>

theorem format_zero_is_unknown:
  "formatTimeRemaining (Some 0) 0 = ''Unknown'' \<and> formatTimeRemaining (Some 0) 0 \<noteq> ''00:00''"
  by (simp add: formatTimeRemaining_def)

text \<open>
  C9, amended. \<^verbatim>\<open>formatTimeRemaining\<close> returns \<^verbatim>\<open>"Unknown"\<close> when \<^verbatim>\<open>nextFetch\<close> is
  \<^verbatim>\<open>null\<close> or 0. Otherwise, with \<open>r\<close> the milliseconds from now to \<^verbatim>\<open>nextFetch\<close>, floored
  at zero, it returns hours, minutes and seconds of \<open>r\<close> (hours \<open>r div 3600000\<close>, minutes
  and seconds below 60), each padded, joined by colons, when \<open>r\<close> is at least one hour,
  and minutes and seconds only otherwise. A padded field is the decimal digits of the
  number, at least two of them, and exactly two below 100.
\<close>

theorem format_time_remaining:
  "formatTimeRemaining None now = ''Unknown'' \<and>
   formatTimeRemaining (Some 0) now = ''Unknown'' \<and>
   (nf \<noteq> 0 \<longrightarrow>
      (let r = nat (max 0 (int nf - int now));
           h = r div 3600000; m = r div 60000 mod 60; s = r div 1000 mod 60
       in formatTimeRemaining (Some nf) now =
            (if 3600000 \<le> r then pad h @ '':'' @ pad m @ '':'' @ pad s
             else pad m @ '':'' @ pad s) \<and>
          m < 60 \<and> s < 60 \<and> r div 1000 = h * 3600 + m * 60 + s)) \<and>
   decimalValue (pad k) = k \<and> (\<forall>c\<in>set (pad k). isDigit c) \<and>
   2 \<le> length (pad k) \<and> (k < 100 \<longrightarrow> length (pad k) = 2)"
proof -
  have fmt: "nf \<noteq> 0 \<Longrightarrow>
      (let r = nat (max 0 (int nf - int now));
           h = r div 3600000; m = r div 60000 mod 60; s = r div 1000 mod 60
       in formatTimeRemaining (Some nf) now =
            (if 3600000 \<le> r then pad h @ '':'' @ pad m @ '':'' @ pad s
             else pad m @ '':'' @ pad s) \<and>
          m < 60 \<and> s < 60 \<and> r div 1000 = h * 3600 + m * 60 + s)"
  proof -
    assume nz: "nf \<noteq> 0"
    define r where "r = nat (max 0 (int nf - int now))"
    have t: "nat (max 0 (int nf - int now) div 1000) = r div 1000"
      by (simp add: r_def nat_div_distrib)
    have sum: "r div 1000 = r div 3600000 * 3600 + r div 60000 mod 60 * 60 + r div 1000 mod 60"
    proof -
      have "r div 1000 = r div 1000 div 3600 * 3600 + r div 1000 mod 3600" by simp
      also have "r div 1000 mod 3600 = r div 1000 mod 3600 div 60 * 60 + r div 1000 mod 3600 mod 60"
        by simp
      also have "r div 1000 mod 3600 mod 60 = r div 1000 mod 60"
        by (simp add: mod_mod_cancel)
      finally show ?thesis by (simp add: clock_fields)
    qed
    have "formatTimeRemaining (Some nf) now =
        (if 0 < r div 1000 div 3600
         then pad (r div 1000 div 3600) @ '':'' @ pad (r div 1000 mod 3600 div 60) @ '':'' @
              pad (r div 1000 mod 60)
         else pad (r div 1000 mod 3600 div 60) @ '':'' @ pad (r div 1000 mod 60))"
      using nz unfolding formatTimeRemaining_def Let_def option.sel t by simp
    then have "formatTimeRemaining (Some nf) now =
        (if 3600000 \<le> r
         then pad (r div 3600000) @ '':'' @ pad (r div 60000 mod 60) @ '':'' @ pad (r div 1000 mod 60)
         else pad (r div 60000 mod 60) @ '':'' @ pad (r div 1000 mod 60))"
      by (simp only: clock_fields)
    with sum show ?thesis
      unfolding r_def [symmetric] Let_def by simp
  qed
  show ?thesis
    using fmt by (simp add: formatTimeRemaining_def decimalValue_pad digits_pad length_pad)
qed

theorem format_time_remaining_witness:
  "(61000::nat) \<noteq> 0 \<and> (3725000::nat) \<noteq> 0 \<and> (7::nat) < 100 \<and>
   formatTimeRemaining (Some 61000) 1000 = pad 1 @ '':'' @ pad 0 \<and>
   formatTimeRemaining (Some 3725000) 0 = pad 1 @ '':'' @ pad 2 @ '':'' @ pad 5 \<and>
   formatTimeRemaining (Some 61000) 90000 = pad 0 @ '':'' @ pad 0 \<and>
   pad 7 = ''07'' \<and> decimalValue (pad 7) = 7 \<and> length (pad 7) = 2"
  using format_time_remaining [where nf = 61000 and now = 1000 and k = 7]
    format_time_remaining [where nf = 3725000 and now = 0 and k = 7]
    format_time_remaining [where nf = 61000 and now = 90000 and k = 7]
  by (simp add: Let_def pad_small digitChar_def)

end
